theory Spec2Isabelle
  imports
    Complex_Main
    "HOL-Library.Word"
    "HOL-Library.Char_ord"
    "HOL-Library.List_Lexorder"
begin

section \<open>Go strings\<close>

text \<open>
  A Go string is a sequence of bytes, here a \<^typ>\<open>string\<close>. The functions of package
  \<^verbatim>\<open>strings\<close> that the storage backend calls are written as the library computes them.
  Go compares strings byte by byte, a proper prefix being smaller; that is the order
  \<open>(<)\<close> on \<^typ>\<open>string\<close> given by the orders on characters and on lists.
\<close>

definition HasPrefix :: "string \<Rightarrow> string \<Rightarrow> bool" where
  "HasPrefix s pre = (length pre \<le> length s \<and> take (length pre) s = pre)"

definition HasSuffix :: "string \<Rightarrow> string \<Rightarrow> bool" where
  "HasSuffix s suf = (length suf \<le> length s \<and> drop (length s - length suf) s = suf)"

fun Contains :: "string \<Rightarrow> string \<Rightarrow> bool" where
  "Contains [] substr = (substr = [])"
| "Contains (c # cs) substr = (HasPrefix (c # cs) substr \<or> Contains cs substr)"

fun trimLeftByte :: "string \<Rightarrow> char \<Rightarrow> string" where
  "trimLeftByte [] c = []"
| "trimLeftByte (x # xs) c = (if x = c then trimLeftByte xs c else x # xs)"

function trimRightByte :: "string \<Rightarrow> char \<Rightarrow> string" where
  "trimRightByte s c = (if s \<noteq> [] \<and> last s = c then trimRightByte (butlast s) c else s)"
  by pat_completeness auto
termination
  by (relation "measure (\<lambda>(s, c). length s)") auto

declare trimRightByte.simps [simp del]

text \<open>
  \<^verbatim>\<open>strings.TrimRight\<close> and \<^verbatim>\<open>strings.Trim\<close> with a cutset of one ASCII byte, the only
  way the backend calls them: the library then strips that byte from the right, and for
  \<^verbatim>\<open>Trim\<close> from the left of what remains.
\<close>

definition TrimRight :: "string \<Rightarrow> char \<Rightarrow> string" where
  "TrimRight s c = trimRightByte s c"

definition Trim :: "string \<Rightarrow> char \<Rightarrow> string" where
  "Trim s c = trimLeftByte (trimRightByte s c) c"

text \<open>
  \<^verbatim>\<open>sort.SliceIsSorted\<close> and \<^verbatim>\<open>sort.StringsAreSorted\<close>: no element is less than its
  predecessor. The library scans from the last index down; with a pure comparison the
  answer does not depend on the direction.
\<close>

fun SliceIsSorted :: "('a \<Rightarrow> 'a \<Rightarrow> bool) \<Rightarrow> 'a list \<Rightarrow> bool" where
  "SliceIsSorted lessFn (x # y # zs) = (\<not> lessFn y x \<and> SliceIsSorted lessFn (y # zs))"
| "SliceIsSorted lessFn _ = True"

definition StringsAreSorted :: "string list \<Rightarrow> bool" where
  "StringsAreSorted xs = SliceIsSorted (\<lambda>a b. a < b) xs"

section \<open>Remote storage backend\<close>

text \<open>
  \<^verbatim>\<open>embedded/remotestorage/azure/blob.go\<close>. An operation returns normally with a value,
  returns one of the package's errors or an error handed up from the client library or
  the operating system, or panics. Every operation is modelled together with the list of
  requests it issued, in order, so that "before any I/O" is a statement about that list.
  A \<^verbatim>\<open>Storage\<close> is built by \<^verbatim>\<open>Open\<close> only, which sets its container client; deriving a
  blob client from it issues no request.
\<close>

datatype error =
    ErrInvalidArguments
  | ErrInvalidResponse
  | ErrTooManyRedirects
  | StorageError string
  | ExternalError nat

datatype panic = MakeSliceLenOutOfRange | NilPointerDereference

datatype 'a outcome = Ok 'a | Err error | Panic panic

datatype io_event =
    DownloadBlobToBuffer string int int
  | OsOpen string
  | UploadFileToBlockBlob string string
  | FileClose string
  | BodyClose
  | GetProperties string
  | ListBlobsHierarchy string string

datatype TokenCredential = TokenCredential nat

datatype ContainerClient = ContainerClient string TokenCredential

record Storage =
  endpoint :: string
  container :: string
  prefix :: string
  cred :: TokenCredential
  containerClient :: ContainerClient

text \<open>
  \<^verbatim>\<open>Open\<close>. The client constructor of the SDK is a parameter: it may refuse the endpoint.
\<close>

definition Open ::
  "(string \<Rightarrow> TokenCredential \<Rightarrow> error + ContainerClient) \<Rightarrow>
   string \<Rightarrow> string \<Rightarrow> string \<Rightarrow> TokenCredential \<Rightarrow> error + Storage" where
  "Open NewContainerClient endpoint0 container0 prefix0 cred0 =
     (let endpoint1 = TrimRight endpoint0 CHR ''/'' @ ''/'';
          container1 = Trim container0 CHR ''/''
      in if Contains container1 ''/'' then Inl ErrInvalidArguments
         else
           let prefix1 = Trim prefix0 CHR ''/'';
               prefix2 = (if prefix1 \<noteq> [] then prefix1 @ ''/'' else prefix1)
           in case NewContainerClient endpoint1 cred0 of
                Inl err \<Rightarrow> Inl err
              | Inr client \<Rightarrow>
                  Inr \<lparr> endpoint = endpoint1, container = container1, prefix = prefix2,
                        cred = cred0, containerClient = client \<rparr>)"

text \<open>
  \<^verbatim>\<open>make([]byte, size)\<close> panics on a negative length; otherwise it yields that many zero
  bytes. The allocation limit of the runtime for very large lengths is not modelled.
\<close>

definition make_bytes :: "int \<Rightarrow> 8 word list option" where
  "make_bytes size' = (if size' < 0 then None else Some (replicate (nat size') 0))"

text \<open>
  \<^verbatim>\<open>Get\<close>. The download of the SDK is a parameter: given the client, the blob name, the
  range and the buffer it returns an error or the filled buffer.
\<close>

definition Get ::
  "(ContainerClient \<Rightarrow> string \<Rightarrow> int \<Rightarrow> int \<Rightarrow> 8 word list \<Rightarrow> error + 8 word list) \<Rightarrow>
   Storage \<Rightarrow> string \<Rightarrow> int \<Rightarrow> int \<Rightarrow> 8 word list outcome \<times> io_event list" where
  "Get download s name offs size' =
     (if offs < 0 \<or> size' = 0 then (Err ErrInvalidArguments, [])
      else if HasPrefix name ''/'' \<or> HasSuffix name ''/'' then (Err ErrInvalidArguments, [])
      else case make_bytes size' of
             None \<Rightarrow> (Panic MakeSliceLenOutOfRange, [])
           | Some buf \<Rightarrow>
               (case download (containerClient s) name offs size' buf of
                  Inl err \<Rightarrow> (Err err, [DownloadBlobToBuffer name offs size'])
                | Inr data \<Rightarrow> (Ok data, [DownloadBlobToBuffer name offs size'])))"

text \<open>
  \<^verbatim>\<open>Put\<close>. Opening the local file and the upload are parameters. The deferred close of the
  file runs last on every path that opened it. A successful upload is taken to answer
  with a response that has a body, which the code closes.
\<close>

definition Put ::
  "(string \<Rightarrow> error + 'file) \<Rightarrow> (ContainerClient \<Rightarrow> string \<Rightarrow> 'file \<Rightarrow> error option) \<Rightarrow>
   Storage \<Rightarrow> string \<Rightarrow> string \<Rightarrow> unit outcome \<times> io_event list" where
  "Put osOpen upload s name fileName =
     (if HasPrefix name ''/'' \<or> HasSuffix name ''/'' then (Err ErrInvalidArguments, [])
      else case osOpen fileName of
             Inl err \<Rightarrow> (Err err, [OsOpen fileName])
           | Inr fl \<Rightarrow>
               (case upload (containerClient s) name fl of
                  Some err \<Rightarrow>
                    (Err err,
                     [OsOpen fileName, UploadFileToBlockBlob name fileName, FileClose fileName])
                | None \<Rightarrow>
                    (Ok (),
                     [OsOpen fileName, UploadFileToBlockBlob name fileName, BodyClose,
                      FileClose fileName])))"

text \<open>
  \<^verbatim>\<open>Exists\<close>. The property request is a parameter. A storage error whose code is
  \<^verbatim>\<open>BlobNotFound\<close> means the blob is absent; any other error is handed up.
\<close>

definition StorageErrorCodeBlobNotFound :: string where
  "StorageErrorCodeBlobNotFound = ''BlobNotFound''"

definition Exists ::
  "(ContainerClient \<Rightarrow> string \<Rightarrow> error option) \<Rightarrow>
   Storage \<Rightarrow> string \<Rightarrow> bool outcome \<times> io_event list" where
  "Exists getProperties s name =
     (if HasPrefix name ''/'' \<or> HasSuffix name ''/'' then (Err ErrInvalidArguments, [])
      else case getProperties (containerClient s) name of
             Some (StorageError code) \<Rightarrow>
               (if code = StorageErrorCodeBlobNotFound then (Ok False, [GetProperties name])
                else (Err (StorageError code), [GetProperties name]))
           | Some err \<Rightarrow> (Err err, [GetProperties name])
           | None \<Rightarrow> (Ok True, [GetProperties name]))"

text \<open>
  \<^verbatim>\<open>ListEntries\<close>. The pager is a parameter: for a delimiter and a prefix it gives the
  pages that \<^verbatim>\<open>NextPage\<close> delivered before it returned false (the code does not look at
  the pager's error afterwards). A listing whose pages never end is not an input of the
  model: on it the loop does not return. The SDK hands out the segment of a page and every
  name and size through pointers: a segment is \<open>None\<close> when its pointer is nil, an
  element is \<open>None\<close> when a pointer on the way to its name or size is nil, and
  dereferencing either panics. The paged listing is recorded as one request.
\<close>

record EntryInfo =
  Name :: string
  Size :: int

record BlobHierarchyListSegment =
  BlobPrefixes :: "string option list"
  BlobItems :: "(string \<times> int) option list"

record ListPage =
  Segment :: "BlobHierarchyListSegment option"

fun appendPrefixes :: "string list \<Rightarrow> string option list \<Rightarrow> string list option" where
  "appendPrefixes subPaths [] = Some subPaths"
| "appendPrefixes subPaths (None # vs) = None"
| "appendPrefixes subPaths (Some name # vs) = appendPrefixes (subPaths @ [name]) vs"

fun appendItems :: "EntryInfo list \<Rightarrow> (string \<times> int) option list \<Rightarrow> EntryInfo list option" where
  "appendItems entries [] = Some entries"
| "appendItems entries (None # vs) = None"
| "appendItems entries (Some (name, len) # vs) =
     appendItems (entries @ [\<lparr>Name = name, Size = len\<rparr>]) vs"

fun collectPages ::
  "EntryInfo list \<Rightarrow> string list \<Rightarrow> ListPage list \<Rightarrow> (EntryInfo list \<times> string list) option" where
  "collectPages entries subPaths [] = Some (entries, subPaths)"
| "collectPages entries subPaths (resp # pages) =
     (case Segment resp of
        None \<Rightarrow> None
      | Some seg \<Rightarrow>
          (case appendPrefixes subPaths (BlobPrefixes seg) of
             None \<Rightarrow> None
           | Some subPaths' \<Rightarrow>
               (case appendItems entries (BlobItems seg) of
                  None \<Rightarrow> None
                | Some entries' \<Rightarrow> collectPages entries' subPaths' pages)))"

definition ListEntries ::
  "(ContainerClient \<Rightarrow> string \<Rightarrow> string \<Rightarrow> ListPage list) \<Rightarrow>
   Storage \<Rightarrow> string \<Rightarrow> (EntryInfo list \<times> string list) outcome \<times> io_event list" where
  "ListEntries listBlobs s path =
     (if path \<noteq> [] \<and> (\<not> HasSuffix path ''/'' \<or> Contains path ''//'')
      then (Err ErrInvalidArguments, [])
      else
        let str = prefix s @ path;
            io = [ListBlobsHierarchy ''/'' str]
        in case collectPages [] [] (listBlobs (containerClient s) ''/'' str) of
             None \<Rightarrow> (Panic NilPointerDereference, io)
           | Some (entries, subPaths) \<Rightarrow>
               if \<not> SliceIsSorted (\<lambda>a b. Name a < Name b) entries
                  \<or> \<not> StringsAreSorted subPaths
               then (Err ErrInvalidResponse, io)
               else (Ok (entries, subPaths), io))"

section \<open>Store options\<close>

text \<open>
  The options file of package \<^verbatim>\<open>store\<close>. A Go \<^verbatim>\<open>int\<close> and a \<^verbatim>\<open>time.Duration\<close> are
  modelled as \<^typ>\<open>int\<close>: the code only stores and compares them. A nil-able pointer,
  interface or function value is an \<open>option\<close>, \<open>None\<close> being nil. Loggers, appendable
  factories and clocks are opaque values.
\<close>

definition DefaultMaxConcurrency :: int where "DefaultMaxConcurrency = 30"
definition DefaultMaxIOConcurrency :: int where "DefaultMaxIOConcurrency = 1"
definition DefaultMaxTxEntries :: int where "DefaultMaxTxEntries = push_bit 10 1"
definition DefaultMaxKeyLen :: int where "DefaultMaxKeyLen = 1024"
definition DefaultMaxValueLen :: int where "DefaultMaxValueLen = 4096"
definition DefaultFileMode :: "32 word" where "DefaultFileMode = 7 * 64 + 5 * 8 + 5"
definition DefaultMaxLinearProofLen :: int where "DefaultMaxLinearProofLen = push_bit 10 1"
definition DefaultTxLogCacheSize :: int where "DefaultTxLogCacheSize = 1000"
definition DefaultMaxWaitees :: int where "DefaultMaxWaitees = 1000"
definition DefaultVLogMaxOpenedFiles :: int where "DefaultVLogMaxOpenedFiles = 10"
definition DefaultTxLogMaxOpenedFiles :: int where "DefaultTxLogMaxOpenedFiles = 10"
definition DefaultCommitLogMaxOpenedFiles :: int where "DefaultCommitLogMaxOpenedFiles = 10"

definition MaxFileSize :: int where "MaxFileSize = push_bit 31 1 - 1"

text \<open>
  A \<^verbatim>\<open>float32\<close> is a finite value, an infinity or not-a-number; \<open>f32_le\<close> is the
  comparison \<^verbatim>\<open><=\<close> of the language, false whenever an operand is not a number.
\<close>

datatype float32 = Float32 real | Float32PosInf | Float32NegInf | Float32NaN

fun f32_le :: "float32 \<Rightarrow> float32 \<Rightarrow> bool" where
  "f32_le Float32NaN _ = False"
| "f32_le _ Float32NaN = False"
| "f32_le Float32NegInf _ = True"
| "f32_le _ Float32PosInf = True"
| "f32_le (Float32 a) (Float32 b) = (a \<le> b)"
| "f32_le _ _ = False"

datatype Logger = SimpleLogger string | OtherLogger nat

datatype AppFactoryFunc = AppFactoryFunc nat

datatype TimeFunc = TimeNow | OtherTimeFunc nat

record IndexOptions =
  CacheSize :: int
  FlushThld :: int
  SyncThld :: int
  FlushBufferSize :: int
  CleanupPercentage :: float32
  MaxActiveSnapshots :: int
  MaxNodeSize :: int
  RenewSnapRootAfter :: int
  CompactionThld :: int
  DelayDuringCompaction :: int
  NodesLogMaxOpenedFiles :: int
  HistoryLogMaxOpenedFiles :: int
  CommitLogMaxOpenedFiles' :: int

record Options =
  ReadOnly :: bool
  Synced :: bool
  FileMode :: "32 word"
  log' :: "Logger option"
  appFactory :: "AppFactoryFunc option"
  CompactionDisabled :: bool
  MaxConcurrency :: int
  MaxIOConcurrency :: int
  MaxLinearProofLen :: int
  TxLogCacheSize :: int
  VLogMaxOpenedFiles :: int
  TxLogMaxOpenedFiles :: int
  CommitLogMaxOpenedFiles :: int
  WriteTxHeaderVersion :: int
  MaxWaitees :: int
  TimeFunc :: "TimeFunc option"
  MaxTxEntries :: int
  MaxKeyLen :: int
  MaxValueLen :: int
  FileSize :: int
  CompressionFormat :: int
  CompressionLevel :: int
  IndexOpts :: "IndexOptions option"


text \<open>
  Constants of the package that the options file uses and other files declare: the
  limits that \<^verbatim>\<open>validOptions\<close> compares against, and the defaults imported from the
  appendable and index packages. They are parameters of the model.
\<close>

record StoreLimits =
  lim_MaxParallelIO :: int
  lim_MaxKeyLen :: int
  lim_MaxTxHeaderVersion :: int

record ImportedDefaults =
  multiapp_DefaultFileSize :: int
  appendable_DefaultCompressionFormat :: int
  appendable_DefaultCompressionLevel :: int
  tbtree_DefaultCacheSize :: int
  tbtree_DefaultFlushThld :: int
  tbtree_DefaultSyncThld :: int
  tbtree_DefaultFlushBufferSize :: int
  tbtree_DefaultCleanUpPercentage :: float32
  tbtree_DefaultMaxActiveSnapshots :: int
  tbtree_DefaultMaxNodeSize :: int
  tbtree_DefaultRenewSnapRootAfter :: int
  tbtree_DefaultCompactionThld :: int
  tbtree_DefaultNodesLogMaxOpenedFiles :: int
  tbtree_DefaultHistoryLogMaxOpenedFiles :: int
  tbtree_DefaultCommitLogMaxOpenedFiles :: int

definition DefaultIndexOptions :: "ImportedDefaults \<Rightarrow> IndexOptions" where
  "DefaultIndexOptions d =
     \<lparr> CacheSize = tbtree_DefaultCacheSize d,
       FlushThld = tbtree_DefaultFlushThld d,
       SyncThld = tbtree_DefaultSyncThld d,
       FlushBufferSize = tbtree_DefaultFlushBufferSize d,
       CleanupPercentage = tbtree_DefaultCleanUpPercentage d,
       MaxActiveSnapshots = tbtree_DefaultMaxActiveSnapshots d,
       MaxNodeSize = tbtree_DefaultMaxNodeSize d,
       RenewSnapRootAfter = tbtree_DefaultRenewSnapRootAfter d,
       CompactionThld = tbtree_DefaultCompactionThld d,
       DelayDuringCompaction = 0,
       NodesLogMaxOpenedFiles = tbtree_DefaultNodesLogMaxOpenedFiles d,
       HistoryLogMaxOpenedFiles = tbtree_DefaultHistoryLogMaxOpenedFiles d,
       CommitLogMaxOpenedFiles' = tbtree_DefaultCommitLogMaxOpenedFiles d \<rparr>"

definition DefaultOptions :: "StoreLimits \<Rightarrow> ImportedDefaults \<Rightarrow> Options" where
  "DefaultOptions lims d =
     \<lparr> ReadOnly = False,
       Synced = True,
       FileMode = DefaultFileMode,
       log' = Some (SimpleLogger ''immudb ''),
       appFactory = None,
       CompactionDisabled = False,
       MaxConcurrency = DefaultMaxConcurrency,
       MaxIOConcurrency = DefaultMaxIOConcurrency,
       MaxLinearProofLen = DefaultMaxLinearProofLen,
       TxLogCacheSize = DefaultTxLogCacheSize,
       VLogMaxOpenedFiles = DefaultVLogMaxOpenedFiles,
       TxLogMaxOpenedFiles = DefaultTxLogMaxOpenedFiles,
       CommitLogMaxOpenedFiles = DefaultCommitLogMaxOpenedFiles,
       WriteTxHeaderVersion = lim_MaxTxHeaderVersion lims,
       MaxWaitees = DefaultMaxWaitees,
       TimeFunc = Some TimeNow,
       MaxTxEntries = DefaultMaxTxEntries,
       MaxKeyLen = DefaultMaxKeyLen,
       MaxValueLen = DefaultMaxValueLen,
       FileSize = multiapp_DefaultFileSize d,
       CompressionFormat = appendable_DefaultCompressionFormat d,
       CompressionLevel = appendable_DefaultCompressionLevel d,
       IndexOpts = Some (DefaultIndexOptions d) \<rparr>"

definition validIndexOptions :: "IndexOptions option \<Rightarrow> bool" where
  "validIndexOptions p =
     (case p of
        None \<Rightarrow> False
      | Some opts \<Rightarrow>
          CacheSize opts > 0 \<and>
          FlushThld opts > 0 \<and>
          FlushBufferSize opts > 0 \<and>
          f32_le (Float32 0) (CleanupPercentage opts) \<and>
          f32_le (CleanupPercentage opts) (Float32 100) \<and>
          MaxActiveSnapshots opts > 0 \<and>
          MaxNodeSize opts > 0 \<and>
          RenewSnapRootAfter opts \<ge> 0 \<and>
          NodesLogMaxOpenedFiles opts > 0 \<and>
          HistoryLogMaxOpenedFiles opts > 0 \<and>
          CommitLogMaxOpenedFiles' opts > 0)"

definition validOptions :: "StoreLimits \<Rightarrow> Options option \<Rightarrow> bool" where
  "validOptions lims p =
     (case p of
        None \<Rightarrow> False
      | Some opts \<Rightarrow>
          MaxConcurrency opts > 0 \<and>
          MaxIOConcurrency opts > 0 \<and>
          MaxIOConcurrency opts \<le> lim_MaxParallelIO lims \<and>
          MaxLinearProofLen opts \<ge> 0 \<and>
          VLogMaxOpenedFiles opts > 0 \<and>
          TxLogMaxOpenedFiles opts > 0 \<and>
          CommitLogMaxOpenedFiles opts > 0 \<and>
          TxLogCacheSize opts \<ge> 0 \<and>
          MaxWaitees opts \<ge> 0 \<and>
          TimeFunc opts \<noteq> None \<and>
          WriteTxHeaderVersion opts \<ge> 0 \<and>
          WriteTxHeaderVersion opts \<le> lim_MaxTxHeaderVersion lims \<and>
          MaxTxEntries opts > 0 \<and>
          MaxKeyLen opts > 0 \<and>
          MaxKeyLen opts \<le> lim_MaxKeyLen lims \<and>
          MaxValueLen opts > 0 \<and>
          FileSize opts > 0 \<and>
          FileSize opts < MaxFileSize \<and>
          log' opts \<noteq> None \<and>
          validIndexOptions (IndexOpts opts))"

text \<open>
  The setters. Each method stores its argument in one field of the receiver and returns
  the receiver; the model returns the receiver's new contents. A nil receiver, on which
  the assignment panics, is not a value of the model's type.
\<close>

definition WithReadOnly :: "bool \<Rightarrow> Options \<Rightarrow> Options" where
  "WithReadOnly readOnly opts = opts\<lparr>ReadOnly := readOnly\<rparr>"

definition WithSynced :: "bool \<Rightarrow> Options \<Rightarrow> Options" where
  "WithSynced synced opts = opts\<lparr>Synced := synced\<rparr>"

definition WithFileMode :: "32 word \<Rightarrow> Options \<Rightarrow> Options" where
  "WithFileMode fileMode opts = opts\<lparr>FileMode := fileMode\<rparr>"

definition WithLog :: "Logger option \<Rightarrow> Options \<Rightarrow> Options" where
  "WithLog lg opts = opts\<lparr>log' := lg\<rparr>"

definition WithAppFactory :: "AppFactoryFunc option \<Rightarrow> Options \<Rightarrow> Options" where
  "WithAppFactory factory opts = opts\<lparr>appFactory := factory\<rparr>"

definition WithCompactionDisabled :: "bool \<Rightarrow> Options \<Rightarrow> Options" where
  "WithCompactionDisabled disabled opts = opts\<lparr>CompactionDisabled := disabled\<rparr>"

definition WithMaxConcurrency :: "int \<Rightarrow> Options \<Rightarrow> Options" where
  "WithMaxConcurrency maxConcurrency opts = opts\<lparr>MaxConcurrency := maxConcurrency\<rparr>"

definition WithMaxIOConcurrency :: "int \<Rightarrow> Options \<Rightarrow> Options" where
  "WithMaxIOConcurrency maxIOConcurrency opts = opts\<lparr>MaxIOConcurrency := maxIOConcurrency\<rparr>"

definition WithMaxLinearProofLen :: "int \<Rightarrow> Options \<Rightarrow> Options" where
  "WithMaxLinearProofLen maxLinearProofLen opts = opts\<lparr>MaxLinearProofLen := maxLinearProofLen\<rparr>"

definition WithTxLogCacheSize :: "int \<Rightarrow> Options \<Rightarrow> Options" where
  "WithTxLogCacheSize txLogCacheSize opts = opts\<lparr>TxLogCacheSize := txLogCacheSize\<rparr>"

definition WithVLogMaxOpenedFiles :: "int \<Rightarrow> Options \<Rightarrow> Options" where
  "WithVLogMaxOpenedFiles vLogMaxOpenedFiles opts = opts\<lparr>VLogMaxOpenedFiles := vLogMaxOpenedFiles\<rparr>"

definition WithTxLogMaxOpenedFiles :: "int \<Rightarrow> Options \<Rightarrow> Options" where
  "WithTxLogMaxOpenedFiles txLogMaxOpenedFiles opts = opts\<lparr>TxLogMaxOpenedFiles := txLogMaxOpenedFiles\<rparr>"

definition WithCommitLogMaxOpenedFiles :: "int \<Rightarrow> Options \<Rightarrow> Options" where
  "WithCommitLogMaxOpenedFiles commitLogMaxOpenedFiles opts = opts\<lparr>CommitLogMaxOpenedFiles := commitLogMaxOpenedFiles\<rparr>"

definition WithWriteTxHeaderVersion :: "int \<Rightarrow> Options \<Rightarrow> Options" where
  "WithWriteTxHeaderVersion version opts = opts\<lparr>WriteTxHeaderVersion := version\<rparr>"

definition WithMaxWaitees :: "int \<Rightarrow> Options \<Rightarrow> Options" where
  "WithMaxWaitees maxWaitees opts = opts\<lparr>MaxWaitees := maxWaitees\<rparr>"

definition WithTimeFunc :: "TimeFunc option \<Rightarrow> Options \<Rightarrow> Options" where
  "WithTimeFunc timeFunc opts = opts\<lparr>TimeFunc := timeFunc\<rparr>"

definition WithMaxTxEntries :: "int \<Rightarrow> Options \<Rightarrow> Options" where
  "WithMaxTxEntries maxTxEntries opts = opts\<lparr>MaxTxEntries := maxTxEntries\<rparr>"

definition WithMaxKeyLen :: "int \<Rightarrow> Options \<Rightarrow> Options" where
  "WithMaxKeyLen maxKeyLen opts = opts\<lparr>MaxKeyLen := maxKeyLen\<rparr>"

definition WithMaxValueLen :: "int \<Rightarrow> Options \<Rightarrow> Options" where
  "WithMaxValueLen maxValueLen opts = opts\<lparr>MaxValueLen := maxValueLen\<rparr>"

definition WithFileSize :: "int \<Rightarrow> Options \<Rightarrow> Options" where
  "WithFileSize fileSize opts = opts\<lparr>FileSize := fileSize\<rparr>"

definition WithCompressionFormat :: "int \<Rightarrow> Options \<Rightarrow> Options" where
  "WithCompressionFormat compressionFormat opts = opts\<lparr>CompressionFormat := compressionFormat\<rparr>"

definition WithCompresionLevel :: "int \<Rightarrow> Options \<Rightarrow> Options" where
  "WithCompresionLevel compressionLevel opts = opts\<lparr>CompressionLevel := compressionLevel\<rparr>"

definition WithIndexOptions :: "IndexOptions option \<Rightarrow> Options \<Rightarrow> Options" where
  "WithIndexOptions indexOptions opts = opts\<lparr>IndexOpts := indexOptions\<rparr>"

definition WithCacheSize :: "int \<Rightarrow> IndexOptions \<Rightarrow> IndexOptions" where
  "WithCacheSize cacheSize opts = opts\<lparr>CacheSize := cacheSize\<rparr>"

definition WithFlushThld :: "int \<Rightarrow> IndexOptions \<Rightarrow> IndexOptions" where
  "WithFlushThld flushThld opts = opts\<lparr>FlushThld := flushThld\<rparr>"

definition WithSyncThld :: "int \<Rightarrow> IndexOptions \<Rightarrow> IndexOptions" where
  "WithSyncThld syncThld opts = opts\<lparr>SyncThld := syncThld\<rparr>"

definition WithFlushBufferSize :: "int \<Rightarrow> IndexOptions \<Rightarrow> IndexOptions" where
  "WithFlushBufferSize flushBufferSize opts = opts\<lparr>FlushBufferSize := flushBufferSize\<rparr>"

definition WithCleanupPercentage :: "float32 \<Rightarrow> IndexOptions \<Rightarrow> IndexOptions" where
  "WithCleanupPercentage cleanupPercentage opts = opts\<lparr>CleanupPercentage := cleanupPercentage\<rparr>"

definition WithMaxActiveSnapshots :: "int \<Rightarrow> IndexOptions \<Rightarrow> IndexOptions" where
  "WithMaxActiveSnapshots maxActiveSnapshots opts = opts\<lparr>MaxActiveSnapshots := maxActiveSnapshots\<rparr>"

definition WithMaxNodeSize :: "int \<Rightarrow> IndexOptions \<Rightarrow> IndexOptions" where
  "WithMaxNodeSize maxNodeSize opts = opts\<lparr>MaxNodeSize := maxNodeSize\<rparr>"

definition WithRenewSnapRootAfter :: "int \<Rightarrow> IndexOptions \<Rightarrow> IndexOptions" where
  "WithRenewSnapRootAfter renewSnapRootAfter opts = opts\<lparr>RenewSnapRootAfter := renewSnapRootAfter\<rparr>"

definition WithCompactionThld :: "int \<Rightarrow> IndexOptions \<Rightarrow> IndexOptions" where
  "WithCompactionThld compactionThld opts = opts\<lparr>CompactionThld := compactionThld\<rparr>"

definition WithDelayDuringCompaction :: "int \<Rightarrow> IndexOptions \<Rightarrow> IndexOptions" where
  "WithDelayDuringCompaction delayDuringCompaction opts = opts\<lparr>DelayDuringCompaction := delayDuringCompaction\<rparr>"

definition WithNodesLogMaxOpenedFiles :: "int \<Rightarrow> IndexOptions \<Rightarrow> IndexOptions" where
  "WithNodesLogMaxOpenedFiles nodesLogMaxOpenedFiles opts = opts\<lparr>NodesLogMaxOpenedFiles := nodesLogMaxOpenedFiles\<rparr>"

definition WithHistoryLogMaxOpenedFiles :: "int \<Rightarrow> IndexOptions \<Rightarrow> IndexOptions" where
  "WithHistoryLogMaxOpenedFiles historyLogMaxOpenedFiles opts = opts\<lparr>HistoryLogMaxOpenedFiles := historyLogMaxOpenedFiles\<rparr>"

definition WithCommitLogMaxOpenedFiles' :: "int \<Rightarrow> IndexOptions \<Rightarrow> IndexOptions" where
  "WithCommitLogMaxOpenedFiles' commitLogMaxOpenedFiles opts = opts\<lparr>CommitLogMaxOpenedFiles' := commitLogMaxOpenedFiles\<rparr>"


text \<open>
  A chain of setter calls is a list of calls applied from left to right. To speak about
  "the field a setter names" and "every other field", fields are enumerated, and a field
  is read into one type of values.
\<close>

datatype FieldVal =
    VBool bool
  | VInt int
  | VDuration int
  | VFileMode "32 word"
  | VFloat32 float32
  | VLogger "Logger option"
  | VAppFactory "AppFactoryFunc option"
  | VTimeFunc "TimeFunc option"
  | VIndexOpts "IndexOptions option"

datatype IndexOptionsField =
    Idx_CacheSize
  | Idx_FlushThld
  | Idx_SyncThld
  | Idx_FlushBufferSize
  | Idx_CleanupPercentage
  | Idx_MaxActiveSnapshots
  | Idx_MaxNodeSize
  | Idx_RenewSnapRootAfter
  | Idx_CompactionThld
  | Idx_DelayDuringCompaction
  | Idx_NodesLogMaxOpenedFiles
  | Idx_HistoryLogMaxOpenedFiles
  | Idx_CommitLogMaxOpenedFiles

fun readFieldIdx :: "IndexOptionsField \<Rightarrow> IndexOptions \<Rightarrow> FieldVal" where
  "readFieldIdx Idx_CacheSize opts = VInt (CacheSize opts)"
| "readFieldIdx Idx_FlushThld opts = VInt (FlushThld opts)"
| "readFieldIdx Idx_SyncThld opts = VInt (SyncThld opts)"
| "readFieldIdx Idx_FlushBufferSize opts = VInt (FlushBufferSize opts)"
| "readFieldIdx Idx_CleanupPercentage opts = VFloat32 (CleanupPercentage opts)"
| "readFieldIdx Idx_MaxActiveSnapshots opts = VInt (MaxActiveSnapshots opts)"
| "readFieldIdx Idx_MaxNodeSize opts = VInt (MaxNodeSize opts)"
| "readFieldIdx Idx_RenewSnapRootAfter opts = VDuration (RenewSnapRootAfter opts)"
| "readFieldIdx Idx_CompactionThld opts = VInt (CompactionThld opts)"
| "readFieldIdx Idx_DelayDuringCompaction opts = VDuration (DelayDuringCompaction opts)"
| "readFieldIdx Idx_NodesLogMaxOpenedFiles opts = VInt (NodesLogMaxOpenedFiles opts)"
| "readFieldIdx Idx_HistoryLogMaxOpenedFiles opts = VInt (HistoryLogMaxOpenedFiles opts)"
| "readFieldIdx Idx_CommitLogMaxOpenedFiles opts = VInt (CommitLogMaxOpenedFiles' opts)"

datatype IndexOptionsSetter =
    SetIdx_CacheSize int
  | SetIdx_FlushThld int
  | SetIdx_SyncThld int
  | SetIdx_FlushBufferSize int
  | SetIdx_CleanupPercentage float32
  | SetIdx_MaxActiveSnapshots int
  | SetIdx_MaxNodeSize int
  | SetIdx_RenewSnapRootAfter int
  | SetIdx_CompactionThld int
  | SetIdx_DelayDuringCompaction int
  | SetIdx_NodesLogMaxOpenedFiles int
  | SetIdx_HistoryLogMaxOpenedFiles int
  | SetIdx_CommitLogMaxOpenedFiles int

fun applySetterIdx :: "IndexOptionsSetter \<Rightarrow> IndexOptions \<Rightarrow> IndexOptions" where
  "applySetterIdx (SetIdx_CacheSize v) opts = WithCacheSize v opts"
| "applySetterIdx (SetIdx_FlushThld v) opts = WithFlushThld v opts"
| "applySetterIdx (SetIdx_SyncThld v) opts = WithSyncThld v opts"
| "applySetterIdx (SetIdx_FlushBufferSize v) opts = WithFlushBufferSize v opts"
| "applySetterIdx (SetIdx_CleanupPercentage v) opts = WithCleanupPercentage v opts"
| "applySetterIdx (SetIdx_MaxActiveSnapshots v) opts = WithMaxActiveSnapshots v opts"
| "applySetterIdx (SetIdx_MaxNodeSize v) opts = WithMaxNodeSize v opts"
| "applySetterIdx (SetIdx_RenewSnapRootAfter v) opts = WithRenewSnapRootAfter v opts"
| "applySetterIdx (SetIdx_CompactionThld v) opts = WithCompactionThld v opts"
| "applySetterIdx (SetIdx_DelayDuringCompaction v) opts = WithDelayDuringCompaction v opts"
| "applySetterIdx (SetIdx_NodesLogMaxOpenedFiles v) opts = WithNodesLogMaxOpenedFiles v opts"
| "applySetterIdx (SetIdx_HistoryLogMaxOpenedFiles v) opts = WithHistoryLogMaxOpenedFiles v opts"
| "applySetterIdx (SetIdx_CommitLogMaxOpenedFiles v) opts = WithCommitLogMaxOpenedFiles' v opts"

fun setterFieldIdx :: "IndexOptionsSetter \<Rightarrow> IndexOptionsField" where
  "setterFieldIdx (SetIdx_CacheSize v) = Idx_CacheSize"
| "setterFieldIdx (SetIdx_FlushThld v) = Idx_FlushThld"
| "setterFieldIdx (SetIdx_SyncThld v) = Idx_SyncThld"
| "setterFieldIdx (SetIdx_FlushBufferSize v) = Idx_FlushBufferSize"
| "setterFieldIdx (SetIdx_CleanupPercentage v) = Idx_CleanupPercentage"
| "setterFieldIdx (SetIdx_MaxActiveSnapshots v) = Idx_MaxActiveSnapshots"
| "setterFieldIdx (SetIdx_MaxNodeSize v) = Idx_MaxNodeSize"
| "setterFieldIdx (SetIdx_RenewSnapRootAfter v) = Idx_RenewSnapRootAfter"
| "setterFieldIdx (SetIdx_CompactionThld v) = Idx_CompactionThld"
| "setterFieldIdx (SetIdx_DelayDuringCompaction v) = Idx_DelayDuringCompaction"
| "setterFieldIdx (SetIdx_NodesLogMaxOpenedFiles v) = Idx_NodesLogMaxOpenedFiles"
| "setterFieldIdx (SetIdx_HistoryLogMaxOpenedFiles v) = Idx_HistoryLogMaxOpenedFiles"
| "setterFieldIdx (SetIdx_CommitLogMaxOpenedFiles v) = Idx_CommitLogMaxOpenedFiles"

fun setterArgIdx :: "IndexOptionsSetter \<Rightarrow> FieldVal" where
  "setterArgIdx (SetIdx_CacheSize v) = VInt v"
| "setterArgIdx (SetIdx_FlushThld v) = VInt v"
| "setterArgIdx (SetIdx_SyncThld v) = VInt v"
| "setterArgIdx (SetIdx_FlushBufferSize v) = VInt v"
| "setterArgIdx (SetIdx_CleanupPercentage v) = VFloat32 v"
| "setterArgIdx (SetIdx_MaxActiveSnapshots v) = VInt v"
| "setterArgIdx (SetIdx_MaxNodeSize v) = VInt v"
| "setterArgIdx (SetIdx_RenewSnapRootAfter v) = VDuration v"
| "setterArgIdx (SetIdx_CompactionThld v) = VInt v"
| "setterArgIdx (SetIdx_DelayDuringCompaction v) = VDuration v"
| "setterArgIdx (SetIdx_NodesLogMaxOpenedFiles v) = VInt v"
| "setterArgIdx (SetIdx_HistoryLogMaxOpenedFiles v) = VInt v"
| "setterArgIdx (SetIdx_CommitLogMaxOpenedFiles v) = VInt v"

datatype OptionsField =
    Opt_ReadOnly
  | Opt_Synced
  | Opt_FileMode
  | Opt_log
  | Opt_appFactory
  | Opt_CompactionDisabled
  | Opt_MaxConcurrency
  | Opt_MaxIOConcurrency
  | Opt_MaxLinearProofLen
  | Opt_TxLogCacheSize
  | Opt_VLogMaxOpenedFiles
  | Opt_TxLogMaxOpenedFiles
  | Opt_CommitLogMaxOpenedFiles
  | Opt_WriteTxHeaderVersion
  | Opt_MaxWaitees
  | Opt_TimeFunc
  | Opt_MaxTxEntries
  | Opt_MaxKeyLen
  | Opt_MaxValueLen
  | Opt_FileSize
  | Opt_CompressionFormat
  | Opt_CompressionLevel
  | Opt_IndexOpts

fun readField :: "OptionsField \<Rightarrow> Options \<Rightarrow> FieldVal" where
  "readField Opt_ReadOnly opts = VBool (ReadOnly opts)"
| "readField Opt_Synced opts = VBool (Synced opts)"
| "readField Opt_FileMode opts = VFileMode (FileMode opts)"
| "readField Opt_log opts = VLogger (log' opts)"
| "readField Opt_appFactory opts = VAppFactory (appFactory opts)"
| "readField Opt_CompactionDisabled opts = VBool (CompactionDisabled opts)"
| "readField Opt_MaxConcurrency opts = VInt (MaxConcurrency opts)"
| "readField Opt_MaxIOConcurrency opts = VInt (MaxIOConcurrency opts)"
| "readField Opt_MaxLinearProofLen opts = VInt (MaxLinearProofLen opts)"
| "readField Opt_TxLogCacheSize opts = VInt (TxLogCacheSize opts)"
| "readField Opt_VLogMaxOpenedFiles opts = VInt (VLogMaxOpenedFiles opts)"
| "readField Opt_TxLogMaxOpenedFiles opts = VInt (TxLogMaxOpenedFiles opts)"
| "readField Opt_CommitLogMaxOpenedFiles opts = VInt (CommitLogMaxOpenedFiles opts)"
| "readField Opt_WriteTxHeaderVersion opts = VInt (WriteTxHeaderVersion opts)"
| "readField Opt_MaxWaitees opts = VInt (MaxWaitees opts)"
| "readField Opt_TimeFunc opts = VTimeFunc (TimeFunc opts)"
| "readField Opt_MaxTxEntries opts = VInt (MaxTxEntries opts)"
| "readField Opt_MaxKeyLen opts = VInt (MaxKeyLen opts)"
| "readField Opt_MaxValueLen opts = VInt (MaxValueLen opts)"
| "readField Opt_FileSize opts = VInt (FileSize opts)"
| "readField Opt_CompressionFormat opts = VInt (CompressionFormat opts)"
| "readField Opt_CompressionLevel opts = VInt (CompressionLevel opts)"
| "readField Opt_IndexOpts opts = VIndexOpts (IndexOpts opts)"

datatype OptionsSetter =
    Set_ReadOnly bool
  | Set_Synced bool
  | Set_FileMode "32 word"
  | Set_Log "Logger option"
  | Set_AppFactory "AppFactoryFunc option"
  | Set_CompactionDisabled bool
  | Set_MaxConcurrency int
  | Set_MaxIOConcurrency int
  | Set_MaxLinearProofLen int
  | Set_TxLogCacheSize int
  | Set_VLogMaxOpenedFiles int
  | Set_TxLogMaxOpenedFiles int
  | Set_CommitLogMaxOpenedFiles int
  | Set_WriteTxHeaderVersion int
  | Set_MaxWaitees int
  | Set_TimeFunc "TimeFunc option"
  | Set_MaxTxEntries int
  | Set_MaxKeyLen int
  | Set_MaxValueLen int
  | Set_FileSize int
  | Set_CompressionFormat int
  | Set_CompresionLevel int
  | Set_IndexOptions "IndexOptions option"

fun applySetter :: "OptionsSetter \<Rightarrow> Options \<Rightarrow> Options" where
  "applySetter (Set_ReadOnly v) opts = WithReadOnly v opts"
| "applySetter (Set_Synced v) opts = WithSynced v opts"
| "applySetter (Set_FileMode v) opts = WithFileMode v opts"
| "applySetter (Set_Log v) opts = WithLog v opts"
| "applySetter (Set_AppFactory v) opts = WithAppFactory v opts"
| "applySetter (Set_CompactionDisabled v) opts = WithCompactionDisabled v opts"
| "applySetter (Set_MaxConcurrency v) opts = WithMaxConcurrency v opts"
| "applySetter (Set_MaxIOConcurrency v) opts = WithMaxIOConcurrency v opts"
| "applySetter (Set_MaxLinearProofLen v) opts = WithMaxLinearProofLen v opts"
| "applySetter (Set_TxLogCacheSize v) opts = WithTxLogCacheSize v opts"
| "applySetter (Set_VLogMaxOpenedFiles v) opts = WithVLogMaxOpenedFiles v opts"
| "applySetter (Set_TxLogMaxOpenedFiles v) opts = WithTxLogMaxOpenedFiles v opts"
| "applySetter (Set_CommitLogMaxOpenedFiles v) opts = WithCommitLogMaxOpenedFiles v opts"
| "applySetter (Set_WriteTxHeaderVersion v) opts = WithWriteTxHeaderVersion v opts"
| "applySetter (Set_MaxWaitees v) opts = WithMaxWaitees v opts"
| "applySetter (Set_TimeFunc v) opts = WithTimeFunc v opts"
| "applySetter (Set_MaxTxEntries v) opts = WithMaxTxEntries v opts"
| "applySetter (Set_MaxKeyLen v) opts = WithMaxKeyLen v opts"
| "applySetter (Set_MaxValueLen v) opts = WithMaxValueLen v opts"
| "applySetter (Set_FileSize v) opts = WithFileSize v opts"
| "applySetter (Set_CompressionFormat v) opts = WithCompressionFormat v opts"
| "applySetter (Set_CompresionLevel v) opts = WithCompresionLevel v opts"
| "applySetter (Set_IndexOptions v) opts = WithIndexOptions v opts"

fun setterField :: "OptionsSetter \<Rightarrow> OptionsField" where
  "setterField (Set_ReadOnly v) = Opt_ReadOnly"
| "setterField (Set_Synced v) = Opt_Synced"
| "setterField (Set_FileMode v) = Opt_FileMode"
| "setterField (Set_Log v) = Opt_log"
| "setterField (Set_AppFactory v) = Opt_appFactory"
| "setterField (Set_CompactionDisabled v) = Opt_CompactionDisabled"
| "setterField (Set_MaxConcurrency v) = Opt_MaxConcurrency"
| "setterField (Set_MaxIOConcurrency v) = Opt_MaxIOConcurrency"
| "setterField (Set_MaxLinearProofLen v) = Opt_MaxLinearProofLen"
| "setterField (Set_TxLogCacheSize v) = Opt_TxLogCacheSize"
| "setterField (Set_VLogMaxOpenedFiles v) = Opt_VLogMaxOpenedFiles"
| "setterField (Set_TxLogMaxOpenedFiles v) = Opt_TxLogMaxOpenedFiles"
| "setterField (Set_CommitLogMaxOpenedFiles v) = Opt_CommitLogMaxOpenedFiles"
| "setterField (Set_WriteTxHeaderVersion v) = Opt_WriteTxHeaderVersion"
| "setterField (Set_MaxWaitees v) = Opt_MaxWaitees"
| "setterField (Set_TimeFunc v) = Opt_TimeFunc"
| "setterField (Set_MaxTxEntries v) = Opt_MaxTxEntries"
| "setterField (Set_MaxKeyLen v) = Opt_MaxKeyLen"
| "setterField (Set_MaxValueLen v) = Opt_MaxValueLen"
| "setterField (Set_FileSize v) = Opt_FileSize"
| "setterField (Set_CompressionFormat v) = Opt_CompressionFormat"
| "setterField (Set_CompresionLevel v) = Opt_CompressionLevel"
| "setterField (Set_IndexOptions v) = Opt_IndexOpts"

fun setterArg :: "OptionsSetter \<Rightarrow> FieldVal" where
  "setterArg (Set_ReadOnly v) = VBool v"
| "setterArg (Set_Synced v) = VBool v"
| "setterArg (Set_FileMode v) = VFileMode v"
| "setterArg (Set_Log v) = VLogger v"
| "setterArg (Set_AppFactory v) = VAppFactory v"
| "setterArg (Set_CompactionDisabled v) = VBool v"
| "setterArg (Set_MaxConcurrency v) = VInt v"
| "setterArg (Set_MaxIOConcurrency v) = VInt v"
| "setterArg (Set_MaxLinearProofLen v) = VInt v"
| "setterArg (Set_TxLogCacheSize v) = VInt v"
| "setterArg (Set_VLogMaxOpenedFiles v) = VInt v"
| "setterArg (Set_TxLogMaxOpenedFiles v) = VInt v"
| "setterArg (Set_CommitLogMaxOpenedFiles v) = VInt v"
| "setterArg (Set_WriteTxHeaderVersion v) = VInt v"
| "setterArg (Set_MaxWaitees v) = VInt v"
| "setterArg (Set_TimeFunc v) = VTimeFunc v"
| "setterArg (Set_MaxTxEntries v) = VInt v"
| "setterArg (Set_MaxKeyLen v) = VInt v"
| "setterArg (Set_MaxValueLen v) = VInt v"
| "setterArg (Set_FileSize v) = VInt v"
| "setterArg (Set_CompressionFormat v) = VInt v"
| "setterArg (Set_CompresionLevel v) = VInt v"
| "setterArg (Set_IndexOptions v) = VIndexOpts v"


definition applyChain :: "OptionsSetter list \<Rightarrow> Options \<Rightarrow> Options" where
  "applyChain chain opts = foldl (\<lambda>acc c. applySetter c acc) opts chain"

definition applyChainIdx :: "IndexOptionsSetter list \<Rightarrow> IndexOptions \<Rightarrow> IndexOptions" where
  "applyChainIdx chain opts = foldl (\<lambda>acc c. applySetterIdx c acc) opts chain"

section \<open>Administration command line: database settings from flags\<close>

text \<open>
  \<^verbatim>\<open>cmd/immuadmin/command/database.go\<close>, function \<^verbatim>\<open>prepareDatabaseSettings\<close>.
  The flag set of the command line library is a finite table from flag names to typed
  values. A typed getter fails when the flag was never defined and when it was defined
  with another type; otherwise it returns the stored value.
\<close>

datatype flag_value = BoolValue bool | StringValue string | Uint32Value "32 word"

datatype flag_error =
    FlagNotDefined string
  | FlagTypeMismatch string string

type_synonym FlagSet = "string \<rightharpoonup> flag_value"

definition GetBool :: "FlagSet \<Rightarrow> string \<Rightarrow> flag_error + bool" where
  "GetBool flags name =
     (case flags name of
        None \<Rightarrow> Inl (FlagNotDefined name)
      | Some (BoolValue b) \<Rightarrow> Inr b
      | Some _ \<Rightarrow> Inl (FlagTypeMismatch name ''bool''))"

definition GetString :: "FlagSet \<Rightarrow> string \<Rightarrow> flag_error + string" where
  "GetString flags name =
     (case flags name of
        None \<Rightarrow> Inl (FlagNotDefined name)
      | Some (StringValue s) \<Rightarrow> Inr s
      | Some _ \<Rightarrow> Inl (FlagTypeMismatch name ''string''))"

definition GetUint32 :: "FlagSet \<Rightarrow> string \<Rightarrow> flag_error + 32 word" where
  "GetUint32 flags name =
     (case flags name of
        None \<Rightarrow> Inl (FlagNotDefined name)
      | Some (Uint32Value n) \<Rightarrow> Inr n
      | Some _ \<Rightarrow> Inl (FlagTypeMismatch name ''uint32''))"

text \<open>
  The fields of \<^verbatim>\<open>schema.DatabaseSettings\<close> that the repository's code and tests name.
  A Go composite literal leaves every field it does not mention at its zero value.
\<close>

record DatabaseSettings =
  DatabaseName :: string
  Replica :: bool
  MasterDatabase :: string
  MasterAddress :: string
  MasterPort :: "32 word"
  ReplicaUsername :: string
  ReplicaPassword :: string
  DbFileSize :: "32 word"
  DbMaxKeyLen :: "32 word"
  DbMaxValueLen :: "32 word"
  DbMaxTxEntries :: "32 word"
  ExcludeCommitTime :: bool

definition zeroDatabaseSettings :: DatabaseSettings where
  "zeroDatabaseSettings =
     \<lparr> DatabaseName = [], Replica = False, MasterDatabase = [], MasterAddress = [],
       MasterPort = 0, ReplicaUsername = [], ReplicaPassword = [],
       DbFileSize = 0, DbMaxKeyLen = 0, DbMaxValueLen = 0, DbMaxTxEntries = 0,
       ExcludeCommitTime = False \<rparr>"

definition prepareDatabaseSettings :: "string \<Rightarrow> FlagSet \<Rightarrow> flag_error + DatabaseSettings" where
  "prepareDatabaseSettings db flags =
     (case GetBool flags ''replica'' of
        Inl err \<Rightarrow> Inl err
      | Inr isReplica \<Rightarrow>
          if \<not> isReplica then Inr (zeroDatabaseSettings\<lparr>DatabaseName := db\<rparr>)
          else
            (case GetString flags ''master-database'' of
               Inl err \<Rightarrow> Inl err
             | Inr masterDatabase \<Rightarrow>
            (case GetString flags ''master-address'' of
               Inl err \<Rightarrow> Inl err
             | Inr masterAddress \<Rightarrow>
            (case GetUint32 flags ''master-port'' of
               Inl err \<Rightarrow> Inl err
             | Inr masterPort \<Rightarrow>
            (case GetString flags ''replica-username'' of
               Inl err \<Rightarrow> Inl err
             | Inr replicaUsername \<Rightarrow>
            (case GetString flags ''replica-username'' of
               Inl err \<Rightarrow> Inl err
             | Inr replicaPassword \<Rightarrow>
                 Inr (zeroDatabaseSettings
                       \<lparr> DatabaseName := db,
                         Replica := isReplica,
                         MasterDatabase := masterDatabase,
                         MasterAddress := masterAddress,
                         MasterPort := masterPort,
                         ReplicaUsername := replicaUsername,
                         ReplicaPassword := replicaPassword \<rparr>)))))))"

section \<open>Hash chain of the commit log\<close>

text \<open>
  Modelled from the spec: the transaction record. The commit pipeline and the proof
  engine of package \<^verbatim>\<open>store\<close> are not among the source files. The spec's data model
  gives a transaction an id counting from 1, a timestamp, its ordered entries, the prior
  chained hash and its chained hash. Entries and digests are left abstract.
\<close>

record ('e, 'h) Transaction =
  tx_id :: nat
  timestamp :: nat
  entries :: "'e list"
  priorChainedHash :: 'h
  chainedHash :: 'h

text \<open>
  Modelled from the spec: the head of the chain, which the missing commit code keeps. It
  is the chained hash of the last committed transaction; before the first commit it is a
  value \<open>h0\<close> that the spec does not fix, a parameter.
\<close>

definition headHash :: "'h \<Rightarrow> ('e, 'h) Transaction list \<Rightarrow> 'h" where
  "headHash h0 txlog = (if txlog = [] then h0 else chainedHash (last txlog))"

text \<open>
  Modelled from the spec: the missing commit step. "A commit header chained to the prior
  head is appended to the Commit Log" and "the transaction is acknowledged with its id
  and chained hash", where
  \<^verbatim>\<open>chainedHash(tx_n) = H(chainedHash(tx_{n-1}), digest(entries_n))\<close> and ids are
  contiguous from 1. The hash \<open>H\<close> and the entry digest are parameters. A request is a
  timestamp with the entries.
\<close>

definition commit ::
  "('h \<Rightarrow> 'h \<Rightarrow> 'h) \<Rightarrow> ('e list \<Rightarrow> 'h) \<Rightarrow> 'h \<Rightarrow> ('e, 'h) Transaction list \<Rightarrow>
   nat \<times> 'e list \<Rightarrow> ('e, 'h) Transaction list \<times> (nat \<times> 'h)" where
  "commit H digest h0 txlog req =
     (let prior = headHash h0 txlog;
          tx = \<lparr> tx_id = length txlog + 1, timestamp = fst req, entries = snd req,
                 priorChainedHash = prior, chainedHash = H prior (digest (snd req)) \<rparr>
      in (txlog @ [tx], (tx_id tx, chainedHash tx)))"

text \<open>
  Modelled from the spec: a sequence of commits through the single commit critical
  section, one after the other, with what each commit returned to its caller.
\<close>

fun commitAll ::
  "('h \<Rightarrow> 'h \<Rightarrow> 'h) \<Rightarrow> ('e list \<Rightarrow> 'h) \<Rightarrow> 'h \<Rightarrow> ('e, 'h) Transaction list \<Rightarrow>
   (nat \<times> 'e list) list \<Rightarrow> ('e, 'h) Transaction list \<times> (nat \<times> 'h) list" where
  "commitAll H digest h0 txlog [] = (txlog, [])"
| "commitAll H digest h0 txlog (req # reqs) =
     (case commit H digest h0 txlog req of
        (txlog', r) \<Rightarrow>
          (case commitAll H digest h0 txlog' reqs of
             (txlog'', rs) \<Rightarrow> (txlog'', r # rs)))"

text \<open>
  Modelled from the spec: recomputation from scratch, "the chained hash of transaction n
  is reproducible deterministically from transactions 1..n". It replays the entries of
  transactions 1 to \<open>n\<close> of the log and reads none of the stored hashes.
\<close>

fun rechain :: "('h \<Rightarrow> 'h \<Rightarrow> 'h) \<Rightarrow> ('e list \<Rightarrow> 'h) \<Rightarrow> 'h \<Rightarrow> 'e list list \<Rightarrow> 'h" where
  "rechain H digest h [] = h"
| "rechain H digest h (es # rest) = rechain H digest (H h (digest es)) rest"

definition recomputeChainedHash ::
  "('h \<Rightarrow> 'h \<Rightarrow> 'h) \<Rightarrow> ('e list \<Rightarrow> 'h) \<Rightarrow> 'h \<Rightarrow> ('e, 'h) Transaction list \<Rightarrow> nat \<Rightarrow> 'h" where
  "recomputeChainedHash H digest h0 txlog n = rechain H digest h0 (map entries (take n txlog))"

section \<open>Sample inputs\<close>

text \<open>Concrete values at which the theorems below are instantiated.\<close>

definition replicaFlags :: FlagSet where
  "replicaFlags =
     [''replica'' \<mapsto> BoolValue True,
      ''master-database'' \<mapsto> StringValue ''defaultdb'',
      ''master-address'' \<mapsto> StringValue ''127.0.0.1'',
      ''master-port'' \<mapsto> Uint32Value 3322,
      ''replica-username'' \<mapsto> StringValue ''follower'',
      ''replica-password'' \<mapsto> StringValue ''secret'']"

definition sampleStorage :: Storage where
  "sampleStorage =
     \<lparr> endpoint = ''https://acct.example.net/'', container = ''immudb'', prefix = ''data/'',
       cred = TokenCredential 0,
       containerClient = ContainerClient ''https://acct.example.net/'' (TokenCredential 0) \<rparr>"

definition sampleDownload ::
  "ContainerClient \<Rightarrow> string \<Rightarrow> int \<Rightarrow> int \<Rightarrow> 8 word list \<Rightarrow> error + 8 word list" where
  "sampleDownload client name offs n buf = Inr buf"

definition sampleOsOpen :: "string \<Rightarrow> error + nat" where
  "sampleOsOpen fileName = Inr 3"

definition sampleUpload :: "ContainerClient \<Rightarrow> string \<Rightarrow> nat \<Rightarrow> error option" where
  "sampleUpload client name fl = None"

definition sampleGetProperties :: "ContainerClient \<Rightarrow> string \<Rightarrow> error option" where
  "sampleGetProperties client name = None"

definition sortedPages :: "ListPage list" where
  "sortedPages =
     [\<lparr> Segment = Some \<lparr> BlobPrefixes = [Some ''data/a/''],
                            BlobItems = [Some (''data/b'', 3)] \<rparr> \<rparr>,
      \<lparr> Segment = Some \<lparr> BlobPrefixes = [Some ''data/c/''],
                            BlobItems = [Some (''data/d'', 1)] \<rparr> \<rparr>]"

definition unsortedPages :: "ListPage list" where
  "unsortedPages =
     [\<lparr> Segment = Some \<lparr> BlobPrefixes = [],
                            BlobItems = [Some (''data/b'', 3), Some (''data/a'', 1)] \<rparr> \<rparr>]"

definition sampleNewContainerClient :: "string \<Rightarrow> TokenCredential \<Rightarrow> error + ContainerClient" where
  "sampleNewContainerClient e c = Inr (ContainerClient e c)"

definition replicaSettings :: DatabaseSettings where
  "replicaSettings =
     \<lparr> DatabaseName = ''db1'', Replica = True, MasterDatabase = ''defaultdb'',
       MasterAddress = ''127.0.0.1'', MasterPort = 3322, ReplicaUsername = ''follower'',
       ReplicaPassword = ''follower'', DbFileSize = 0, DbMaxKeyLen = 0, DbMaxValueLen = 0,
       DbMaxTxEntries = 0, ExcludeCommitTime = False \<rparr>"

definition sortedEntries :: "EntryInfo list" where
  "sortedEntries = [\<lparr>Name = ''data/b'', Size = 3\<rparr>, \<lparr>Name = ''data/d'', Size = 1\<rparr>]"

definition unsortedEntries :: "EntryInfo list" where
  "unsortedEntries = [\<lparr>Name = ''data/b'', Size = 3\<rparr>, \<lparr>Name = ''data/a'', Size = 1\<rparr>]"

definition sampleLimits :: StoreLimits where
  "sampleLimits = \<lparr> lim_MaxParallelIO = 127, lim_MaxKeyLen = 1024, lim_MaxTxHeaderVersion = 1 \<rparr>"

definition sampleDefaults :: ImportedDefaults where
  "sampleDefaults =
     \<lparr> multiapp_DefaultFileSize = 67108864,
       appendable_DefaultCompressionFormat = 0,
       appendable_DefaultCompressionLevel = - 1,
       tbtree_DefaultCacheSize = 100000,
       tbtree_DefaultFlushThld = 100000,
       tbtree_DefaultSyncThld = 1000000,
       tbtree_DefaultFlushBufferSize = 4096,
       tbtree_DefaultCleanUpPercentage = Float32 0,
       tbtree_DefaultMaxActiveSnapshots = 100,
       tbtree_DefaultMaxNodeSize = 4096,
       tbtree_DefaultRenewSnapRootAfter = 1000000000,
       tbtree_DefaultCompactionThld = 2,
       tbtree_DefaultNodesLogMaxOpenedFiles = 10,
       tbtree_DefaultHistoryLogMaxOpenedFiles = 1,
       tbtree_DefaultCommitLogMaxOpenedFiles = 1 \<rparr>"

definition sampleChain :: "OptionsSetter list" where
  "sampleChain = [Set_ReadOnly True, Set_MaxKeyLen 32, Set_FileSize 1048576]"

definition sampleChainIdx :: "IndexOptionsSetter list" where
  "sampleChainIdx = [SetIdx_SyncThld 512, SetIdx_CacheSize 1024]"

definition sampleH :: "nat \<Rightarrow> nat \<Rightarrow> nat" where
  "sampleH prior d = (31 * prior + d + 7) mod 1009"

definition sampleDigest :: "nat list \<Rightarrow> nat" where
  "sampleDigest es = foldl (\<lambda>acc e. (3 * acc + e) mod 1009) 1 es"

definition sampleReqs :: "(nat \<times> nat list) list" where
  "sampleReqs = [(100, [1, 2]), (101, [3]), (105, [2, 1])]"

definition sampleLog :: "(nat, nat) Transaction list" where
  "sampleLog =
     [\<lparr>tx_id = 1, timestamp = 100, entries = [1, 2], priorChainedHash = 0, chainedHash = 21\<rparr>,
      \<lparr>tx_id = 2, timestamp = 101, entries = [3], priorChainedHash = 21, chainedHash = 664\<rparr>,
      \<lparr>tx_id = 3, timestamp = 105, entries = [2, 1], priorChainedHash = 664, chainedHash = 427\<rparr>]"

definition sampleReturned :: "(nat \<times> nat) list" where
  "sampleReturned = [(1, 21), (2, 664), (3, 427)]"

section \<open>Facts about the string functions\<close>

lemma HasPrefix_sep: "HasPrefix s ''/'' \<longleftrightarrow> s \<noteq> [] \<and> hd s = CHR ''/''"
  by (cases s) (auto simp: HasPrefix_def)

lemma HasSuffix_sep: "HasSuffix s ''/'' \<longleftrightarrow> s \<noteq> [] \<and> last s = CHR ''/''"
proof (cases s rule: rev_cases)
  case Nil
  then show ?thesis by (simp add: HasSuffix_def)
next
  case (snoc ys y)
  then show ?thesis by (auto simp: HasSuffix_def)
qed

lemma HasPrefix_append: "HasPrefix s pre \<longleftrightarrow> (\<exists>v. s = pre @ v)"
  unfolding HasPrefix_def
  by (metis append_eq_conv_conj append_take_drop_id length_append le_add1)

lemma Contains_iff: "Contains s sub \<longleftrightarrow> (\<exists>u v. s = u @ sub @ v)"
proof (induction s)
  case Nil
  then show ?case by auto
next
  case (Cons c cs)
  show ?case
  proof
    assume "Contains (c # cs) sub"
    then consider "HasPrefix (c # cs) sub" | "Contains cs sub" by auto
    then show "\<exists>u v. c # cs = u @ sub @ v"
    proof cases
      case 1
      then obtain v where "c # cs = sub @ v" by (auto simp: HasPrefix_append)
      then have "c # cs = [] @ sub @ v" by simp
      then show ?thesis by blast
    next
      case 2
      then obtain u v where "cs = u @ sub @ v" using Cons.IH by auto
      then have "c # cs = (c # u) @ sub @ v" by simp
      then show ?thesis by blast
    qed
  next
    assume "\<exists>u v. c # cs = u @ sub @ v"
    then obtain u v where uv: "c # cs = u @ sub @ v" by auto
    show "Contains (c # cs) sub"
    proof (cases u)
      case Nil
      with uv have "HasPrefix (c # cs) sub" by (auto simp: HasPrefix_append)
      then show ?thesis by simp
    next
      case (Cons a u')
      with uv have "cs = u' @ sub @ v" by simp
      then have "Contains cs sub" using Cons.IH by blast
      then show ?thesis by simp
    qed
  qed
qed

lemma Contains_sep: "Contains s ''/'' \<longleftrightarrow> CHR ''/'' \<in> set s"
  by (induction s) (auto simp: HasPrefix_def)

lemma trimLeftByte_dropWhile: "trimLeftByte s c = dropWhile (\<lambda>x. x = c) s"
  by (induction s) auto

lemma trimRightByte_snoc:
  "trimRightByte (xs @ [x]) c = (if x = c then trimRightByte xs c else xs @ [x])"
  by (subst trimRightByte.simps) simp

lemma trimRightByte_Nil: "trimRightByte [] c = []"
  by (subst trimRightByte.simps) simp

lemma trimRightByte_rev: "trimRightByte s c = rev (dropWhile (\<lambda>x. x = c) (rev s))"
  by (induction s rule: rev_induct) (auto simp: trimRightByte_snoc trimRightByte_Nil)

lemma trimRightByte_last: "trimRightByte s c \<noteq> [] \<Longrightarrow> last (trimRightByte s c) \<noteq> c"
  by (induction s rule: rev_induct) (auto simp: trimRightByte_snoc trimRightByte_Nil)

lemma Trim_ends:
  assumes "Trim s c \<noteq> []"
  shows "hd (Trim s c) \<noteq> c \<and> last (Trim s c) \<noteq> c"
proof -
  let ?t = "trimRightByte s c"
  have T: "Trim s c = dropWhile (\<lambda>x. x = c) ?t"
    by (simp add: Trim_def trimLeftByte_dropWhile)
  with assms have ne: "?t \<noteq> []" by auto
  then have l: "last ?t \<noteq> c" by (rule trimRightByte_last)
  have "hd (dropWhile (\<lambda>x. x = c) ?t) \<noteq> c"
    using assms T hd_dropWhile [of "\<lambda>x. x = c" ?t] by auto
  moreover have "last (dropWhile (\<lambda>x. x = c) ?t) = last ?t"
    using assms T by (metis last_appendR takeWhile_dropWhile_id)
  ultimately show ?thesis using T l by simp
qed

text \<open>
  The order on \<^typ>\<open>string\<close>, spelled out: the empty string is below every other, and two
  non-empty strings compare by their first bytes as unsigned numbers, then by the rest.
\<close>

lemma string_less_bytewise:
  "\<not> s < ([] :: string)"
  "([] :: string) < b # t"
  "(a # s < b # t) \<longleftrightarrow> (of_char a :: nat) < of_char b \<or> (a = b \<and> s < t)"
  by (simp_all add: less_char_def)

lemma SliceIsSorted_sorted:
  "SliceIsSorted (\<lambda>a b. f a < f b) xs \<longleftrightarrow> sorted (map f xs)"
  for f :: "'a \<Rightarrow> 'b::linorder"
  by (induction "\<lambda>a b. f a < f b" xs rule: SliceIsSorted.induct)
    (auto simp: not_less intro: order_trans)

lemma StringsAreSorted_sorted: "StringsAreSorted xs \<longleftrightarrow> sorted xs"
  using SliceIsSorted_sorted [of "\<lambda>x. x" xs] by (simp add: StringsAreSorted_def)

section \<open>Properties of the remote storage backend\<close>

text \<open>
  Claim C3. For every object name that starts or ends with the path separator,
  \<^verbatim>\<open>Get\<close>, \<^verbatim>\<open>Put\<close> and \<^verbatim>\<open>Exists\<close> each fail with \<^verbatim>\<open>ErrInvalidArguments\<close> and
  have issued no request: no download, no file open or upload, no property request.
\<close>

theorem separator_names_rejected_before_io:
  assumes "name \<noteq> []" and "hd name = CHR ''/'' \<or> last name = CHR ''/''"
  shows "Get download s name offs size' = (Err ErrInvalidArguments, [])
       \<and> Put osOpen upload s name fileName = (Err ErrInvalidArguments, [])
       \<and> Exists getProperties s name = (Err ErrInvalidArguments, [])"
proof -
  from assms have bad: "HasPrefix name ''/'' \<or> HasSuffix name ''/''"
    by (simp add: HasPrefix_sep HasSuffix_sep)
  have "Get download s name offs size' = (Err ErrInvalidArguments, [])"
    using bad by (simp add: Get_def)
  moreover have "Put osOpen upload s name fileName = (Err ErrInvalidArguments, [])"
    using bad by (simp add: Put_def)
  moreover have "Exists getProperties s name = (Err ErrInvalidArguments, [])"
    using bad by (simp add: Exists_def)
  ultimately show ?thesis by simp
qed

theorem separator_names_rejected_before_io_witness:
  "''/tx/0001'' \<noteq> [] \<and> (hd ''/tx/0001'' = CHR ''/'' \<or> last ''/tx/0001'' = CHR ''/'')
   \<and> Get sampleDownload sampleStorage ''/tx/0001'' 0 16 = (Err ErrInvalidArguments, [])
   \<and> Put sampleOsOpen sampleUpload sampleStorage ''/tx/0001'' ''seg.val'' = (Err ErrInvalidArguments, [])
   \<and> Exists sampleGetProperties sampleStorage ''/tx/0001'' = (Err ErrInvalidArguments, [])"
proof -
  have a: "''/tx/0001'' \<noteq> []" by simp
  have b: "hd ''/tx/0001'' = CHR ''/'' \<or> last ''/tx/0001'' = CHR ''/''" by simp
  show ?thesis
    using a b separator_names_rejected_before_io [OF a b, of sampleDownload sampleStorage 0 16
        sampleOsOpen sampleUpload "''seg.val''" sampleGetProperties]
    by simp
qed

lemma collectPages_Some_ListEntries:
  assumes "path = [] \<or> (HasSuffix path ''/'' \<and> \<not> Contains path ''//'')"
    and "collectPages [] [] (listBlobs (containerClient s) ''/'' (prefix s @ path)) = Some (es, subs)"
  shows "ListEntries listBlobs s path =
           (if sorted (map Name es) \<and> sorted subs then Ok (es, subs) else Err ErrInvalidResponse,
            [ListBlobsHierarchy ''/'' (prefix s @ path)])"
  using assms
  by (auto simp: ListEntries_def Let_def SliceIsSorted_sorted StringsAreSorted_sorted)

text \<open>
  Claim C4. Whenever \<^verbatim>\<open>ListEntries\<close> returns without error, the entries are sorted by
  name and the sub-paths are sorted, in the byte order of Go strings. And when the path
  passes the argument check, so that the backend is asked, and the listing that the loop
  collects from the pages is not sorted (the entries by name, or the sub-paths),
  \<^verbatim>\<open>ListEntries\<close> fails with \<^verbatim>\<open>ErrInvalidResponse\<close> instead of returning the lists.
\<close>

theorem ListEntries_sorted_or_invalid_response:
  "(ListEntries listBlobs s path = (Ok (es, subs), io) \<longrightarrow> sorted (map Name es) \<and> sorted subs)
   \<and> ((path = [] \<or> (last path = CHR ''/'' \<and> \<not> (\<exists>u v. path = u @ ''//'' @ v)))
        \<and> collectPages [] [] (listBlobs (containerClient s) ''/'' (prefix s @ path)) = Some (es', subs')
        \<and> \<not> (sorted (map Name es') \<and> sorted subs')
      \<longrightarrow> ListEntries listBlobs s path =
            (Err ErrInvalidResponse, [ListBlobsHierarchy ''/'' (prefix s @ path)]))"
proof -
  have returned: "sorted (map Name es) \<and> sorted subs"
    if "ListEntries listBlobs s path = (Ok (es, subs), io)"
    using that
    by (auto simp: ListEntries_def Let_def SliceIsSorted_sorted StringsAreSorted_sorted
        split: if_splits option.splits)
  have unsorted: "ListEntries listBlobs s path =
            (Err ErrInvalidResponse, [ListBlobsHierarchy ''/'' (prefix s @ path)])"
    if accepted: "path = [] \<or> (last path = CHR ''/'' \<and> \<not> (\<exists>u v. path = u @ ''//'' @ v))"
      and pages: "collectPages [] [] (listBlobs (containerClient s) ''/'' (prefix s @ path)) = Some (es', subs')"
      and bad: "\<not> (sorted (map Name es') \<and> sorted subs')"
  proof -
    from accepted have "path = [] \<or> (HasSuffix path ''/'' \<and> \<not> Contains path ''//'')"
      by (auto simp: HasSuffix_sep Contains_iff)
    with pages bad show ?thesis
      using collectPages_Some_ListEntries [of path listBlobs s es' subs'] by auto
  qed
  from returned unsorted show ?thesis by blast
qed

lemma sample_path_accepted:
  "last ''tx/'' = CHR ''/'' \<and> \<not> (\<exists>u v. ''tx/'' = u @ ''//'' @ v)"
proof -
  have "\<not> Contains ''tx/'' ''//''" by (simp add: HasPrefix_def)
  then show ?thesis by (simp add: Contains_iff)
qed

theorem ListEntries_sorted_or_invalid_response_witness:
  "ListEntries (\<lambda>client delim pre. sortedPages) sampleStorage ''tx/'' =
     (Ok (sortedEntries, [''data/a/'', ''data/c/'']), [ListBlobsHierarchy ''/'' ''data/tx/''])
   \<and> sorted (map Name sortedEntries) \<and> sorted [''data/a/'', ''data/c/'']
   \<and> collectPages [] [] unsortedPages = Some (unsortedEntries, [])
   \<and> \<not> (sorted (map Name unsortedEntries) \<and> sorted ([] :: string list))
   \<and> ListEntries (\<lambda>client delim pre. unsortedPages) sampleStorage ''tx/'' =
     (Err ErrInvalidResponse, [ListBlobsHierarchy ''/'' ''data/tx/''])"
proof -
  have a: "ListEntries (\<lambda>client delim pre. sortedPages) sampleStorage ''tx/'' =
     (Ok (sortedEntries, [''data/a/'', ''data/c/'']), [ListBlobsHierarchy ''/'' ''data/tx/''])"
    by (simp add: ListEntries_def Let_def HasSuffix_def HasPrefix_def sortedPages_def
        sortedEntries_def StringsAreSorted_def sampleStorage_def)
  have b: "collectPages [] [] unsortedPages = Some (unsortedEntries, [])"
    by (simp add: unsortedPages_def unsortedEntries_def)
  have c: "\<not> (sorted (map Name unsortedEntries) \<and> sorted ([] :: string list))"
    by (simp add: unsortedEntries_def)
  have p: "prefix sampleStorage @ ''tx/'' = ''data/tx/''"
    by (simp add: sampleStorage_def)
  have s1: "sorted (map Name sortedEntries) \<and> sorted [''data/a/'', ''data/c/'']"
    using a
    by (rule ListEntries_sorted_or_invalid_response [THEN conjunct1, THEN mp])
  have acc: "''tx/'' = [] \<or> (last ''tx/'' = CHR ''/'' \<and> \<not> (\<exists>u v. ''tx/'' = u @ ''//'' @ v))"
    using sample_path_accepted by (rule disjI2)
  have b': "collectPages [] []
              ((\<lambda>client delim pre. unsortedPages) (containerClient sampleStorage) ''/''
                 (prefix sampleStorage @ ''tx/'')) = Some (unsortedEntries, [])"
    using b by simp
  have "ListEntries (\<lambda>client delim pre. unsortedPages) sampleStorage ''tx/'' =
     (Err ErrInvalidResponse, [ListBlobsHierarchy ''/'' (prefix sampleStorage @ ''tx/'')])"
    by (rule ListEntries_sorted_or_invalid_response [THEN conjunct2, THEN mp])
      (rule conjI [OF acc conjI [OF b' c]])
  with p have s2: "ListEntries (\<lambda>client delim pre. unsortedPages) sampleStorage ''tx/'' =
     (Err ErrInvalidResponse, [ListBlobsHierarchy ''/'' ''data/tx/''])"
    by simp
  show ?thesis
    by (intro conjI a b c s2 s1 [THEN conjunct1] s1 [THEN conjunct2])
qed

text \<open>
  Claim C10. A non-empty path that does not end with the separator, or that contains two
  separators in a row, makes \<^verbatim>\<open>ListEntries\<close> fail with \<^verbatim>\<open>ErrInvalidArguments\<close> before
  the backend is contacted. The empty path passes the check: the listing request is
  issued and the result is never \<^verbatim>\<open>ErrInvalidArguments\<close>.
\<close>

theorem ListEntries_path_check:
  "(path \<noteq> [] \<and> (last path \<noteq> CHR ''/'' \<or> (\<exists>u v. path = u @ ''//'' @ v))
      \<longrightarrow> ListEntries listBlobs s path = (Err ErrInvalidArguments, []))
   \<and> fst (ListEntries listBlobs s []) \<noteq> Err ErrInvalidArguments
   \<and> snd (ListEntries listBlobs s []) = [ListBlobsHierarchy ''/'' (prefix s)]"
proof (intro conjI impI)
  assume "path \<noteq> [] \<and> (last path \<noteq> CHR ''/'' \<or> (\<exists>u v. path = u @ ''//'' @ v))"
  then have "path \<noteq> [] \<and> (\<not> HasSuffix path ''/'' \<or> Contains path ''//'')"
    by (auto simp: HasSuffix_sep Contains_iff)
  then show "ListEntries listBlobs s path = (Err ErrInvalidArguments, [])"
    by (simp add: ListEntries_def)
next
  show "fst (ListEntries listBlobs s []) \<noteq> Err ErrInvalidArguments"
    by (simp add: ListEntries_def Let_def split: option.splits prod.splits)
next
  show "snd (ListEntries listBlobs s []) = [ListBlobsHierarchy ''/'' (prefix s)]"
    by (simp add: ListEntries_def Let_def split: option.splits prod.splits)
qed

theorem ListEntries_path_check_witness:
  "''tx'' \<noteq> [] \<and> last ''tx'' \<noteq> CHR ''/''
   \<and> ListEntries (\<lambda>client delim pre. sortedPages) sampleStorage ''tx'' = (Err ErrInvalidArguments, [])
   \<and> ''a//b/'' = ''a'' @ ''//'' @ ''b/''
   \<and> ListEntries (\<lambda>client delim pre. sortedPages) sampleStorage ''a//b/'' = (Err ErrInvalidArguments, [])"
proof -
  have a1: "''tx'' \<noteq> []" and a2: "last ''tx'' \<noteq> CHR ''/''"
    by simp_all
  have e: "''a//b/'' = ''a'' @ ''//'' @ ''b/''" by simp
  have b1: "''a//b/'' \<noteq> []" by simp
  have b2: "\<exists>u v. ''a//b/'' = u @ ''//'' @ v"
    by (rule exI [of _ "''a''"], rule exI [of _ "''b/''"]) (rule e)
  have r1: "ListEntries (\<lambda>client delim pre. sortedPages) sampleStorage ''tx'' = (Err ErrInvalidArguments, [])"
    by (rule ListEntries_path_check [THEN conjunct1, rule_format]) (use a1 a2 in blast)
  have r2: "ListEntries (\<lambda>client delim pre. sortedPages) sampleStorage ''a//b/'' = (Err ErrInvalidArguments, [])"
    by (rule ListEntries_path_check [THEN conjunct1, rule_format]) (use b1 b2 in blast)
  show ?thesis
    by (intro conjI a1 a2 r1 e r2)
qed

text \<open>
  Claim C9. When \<^verbatim>\<open>Open\<close> succeeds, the endpoint of the storage ends with the
  separator, its container contains no separator, and its prefix is empty or ends with
  the separator and does not start with it. When the container, trimmed of surrounding
  separators, still contains one, \<^verbatim>\<open>Open\<close> fails with \<^verbatim>\<open>ErrInvalidArguments\<close>.
\<close>

theorem Open_normalizes:
  "(Open NewContainerClient endpoint0 container0 prefix0 cred0 = Inr st \<longrightarrow>
      endpoint st \<noteq> [] \<and> last (endpoint st) = CHR ''/''
      \<and> CHR ''/'' \<notin> set (container st)
      \<and> (prefix st = [] \<or> (last (prefix st) = CHR ''/'' \<and> hd (prefix st) \<noteq> CHR ''/'')))
   \<and> (CHR ''/'' \<in> set (Trim container0 CHR ''/'') \<longrightarrow>
      Open NewContainerClient endpoint0 container0 prefix0 cred0 = Inl ErrInvalidArguments)"
proof -
  have success: "endpoint st \<noteq> [] \<and> last (endpoint st) = CHR ''/''
      \<and> CHR ''/'' \<notin> set (container st)
      \<and> (prefix st = [] \<or> (last (prefix st) = CHR ''/'' \<and> hd (prefix st) \<noteq> CHR ''/''))"
    if ok: "Open NewContainerClient endpoint0 container0 prefix0 cred0 = Inr st"
  proof -
    from ok have e: "endpoint st = TrimRight endpoint0 CHR ''/'' @ ''/''"
      and c: "container st = Trim container0 CHR ''/''"
             "\<not> Contains (Trim container0 CHR ''/'') ''/''"
      and p: "prefix st = (if Trim prefix0 CHR ''/'' \<noteq> [] then Trim prefix0 CHR ''/'' @ ''/''
                           else Trim prefix0 CHR ''/'')"
      by (auto simp: Open_def Let_def split: if_splits sum.splits)
    have "prefix st = [] \<or> (last (prefix st) = CHR ''/'' \<and> hd (prefix st) \<noteq> CHR ''/'')"
    proof (cases "Trim prefix0 CHR ''/'' = []")
      case True
      with p show ?thesis by simp
    next
      case False
      then have "hd (Trim prefix0 CHR ''/'') \<noteq> CHR ''/''" using Trim_ends by blast
      with False p show ?thesis by simp
    qed
    with e c show ?thesis by (simp add: Contains_sep)
  qed
  have failure: "Open NewContainerClient endpoint0 container0 prefix0 cred0 = Inl ErrInvalidArguments"
    if "CHR ''/'' \<in> set (Trim container0 CHR ''/'')"
    using that by (simp add: Open_def Let_def Contains_sep)
  from success failure show ?thesis by blast
qed

theorem Open_normalizes_witness:
  "Open sampleNewContainerClient ''https://acct.example.net//'' ''/immudb/'' ''/data/''
     (TokenCredential 0) = Inr sampleStorage
   \<and> endpoint sampleStorage \<noteq> [] \<and> last (endpoint sampleStorage) = CHR ''/''
   \<and> CHR ''/'' \<notin> set (container sampleStorage)
   \<and> (prefix sampleStorage = []
       \<or> (last (prefix sampleStorage) = CHR ''/'' \<and> hd (prefix sampleStorage) \<noteq> CHR ''/''))
   \<and> CHR ''/'' \<in> set (Trim ''/immu/db/'' CHR ''/'')
   \<and> Open sampleNewContainerClient ''https://acct.example.net//'' ''/immu/db/'' ''/data/''
     (TokenCredential 0) = Inl ErrInvalidArguments"
proof -
  have a: "Open sampleNewContainerClient ''https://acct.example.net//'' ''/immudb/'' ''/data/''
     (TokenCredential 0) = Inr sampleStorage"
    by (simp add: Open_def Let_def Trim_def TrimRight_def trimRightByte.simps HasPrefix_def
        sampleNewContainerClient_def sampleStorage_def)
  have b: "CHR ''/'' \<in> set (Trim ''/immu/db/'' CHR ''/'')"
    by (simp add: Trim_def trimRightByte.simps)
  from Open_normalizes [of sampleNewContainerClient "''https://acct.example.net//''"
        "''/immudb/''" "''/data/''" "TokenCredential 0" sampleStorage] a
  have r1: "endpoint sampleStorage \<noteq> [] \<and> last (endpoint sampleStorage) = CHR ''/''
   \<and> CHR ''/'' \<notin> set (container sampleStorage)
   \<and> (prefix sampleStorage = []
       \<or> (last (prefix sampleStorage) = CHR ''/'' \<and> hd (prefix sampleStorage) \<noteq> CHR ''/''))"
    by blast
  from Open_normalizes [of sampleNewContainerClient "''https://acct.example.net//''"
        "''/immu/db/''" "''/data/''" "TokenCredential 0"] b
  have r2: "Open sampleNewContainerClient ''https://acct.example.net//'' ''/immu/db/'' ''/data/''
     (TokenCredential 0) = Inl ErrInvalidArguments"
    by blast
  from a b r1 r2 show ?thesis by blast
qed

text \<open>
  Claim C6. The claim asks that \<^verbatim>\<open>Get\<close> answer every negative size with
  \<^verbatim>\<open>ErrInvalidArguments\<close>. The argument check of the code only rejects a size of zero:
  with a valid name, offset 0 and size \<open>-1\<close> the call reaches the allocation of the
  buffer and panics there, before any request is issued.
\<close>

theorem Get_negative_size_panics:
  "Get download s ''tx/0001'' 0 (- 1) = (Panic MakeSliceLenOutOfRange, [])"
  by (simp add: Get_def HasPrefix_def HasSuffix_def make_bytes_def)

section \<open>Properties of the store options\<close>

lemmas default_constants =
  DefaultMaxConcurrency_def DefaultMaxIOConcurrency_def DefaultMaxTxEntries_def
  DefaultMaxKeyLen_def DefaultMaxValueLen_def DefaultFileMode_def DefaultMaxLinearProofLen_def
  DefaultTxLogCacheSize_def DefaultMaxWaitees_def DefaultVLogMaxOpenedFiles_def
  DefaultTxLogMaxOpenedFiles_def DefaultCommitLogMaxOpenedFiles_def

lemma MaxFileSize_value: "MaxFileSize = 2147483647"
  by (simp add: MaxFileSize_def)

text \<open>
  Claim C2. \<^verbatim>\<open>validOptions\<close> accepts only a non-nil options value for which every
  listed bound holds: positive transaction concurrency; I/O concurrency positive and at
  most \<^verbatim>\<open>MaxParallelIO\<close>; non-negative linear proof length; positive limits of opened
  files for the value, transaction and commit logs; positive number of entries per
  transaction; key length positive and at most \<^verbatim>\<open>MaxKeyLen\<close>; positive value length;
  file size positive and strictly below \<open>2^31 - 1\<close>.
\<close>

theorem validOptions_bounds:
  assumes "validOptions lims p"
  shows "\<exists>opts. p = Some opts
       \<and> MaxConcurrency opts > 0
       \<and> MaxIOConcurrency opts > 0 \<and> MaxIOConcurrency opts \<le> lim_MaxParallelIO lims
       \<and> MaxLinearProofLen opts \<ge> 0
       \<and> VLogMaxOpenedFiles opts > 0 \<and> TxLogMaxOpenedFiles opts > 0
       \<and> CommitLogMaxOpenedFiles opts > 0
       \<and> MaxTxEntries opts > 0
       \<and> MaxKeyLen opts > 0 \<and> MaxKeyLen opts \<le> lim_MaxKeyLen lims
       \<and> MaxValueLen opts > 0
       \<and> FileSize opts > 0 \<and> FileSize opts < 2 ^ 31 - 1"
proof (cases p)
  case None
  with assms show ?thesis by (simp add: validOptions_def)
next
  case (Some opts)
  with assms show ?thesis by (simp add: validOptions_def MaxFileSize_value)
qed

lemma sample_default_valid:
  "validOptions sampleLimits (Some (DefaultOptions sampleLimits sampleDefaults))"
  by (simp add: validOptions_def validIndexOptions_def DefaultOptions_def DefaultIndexOptions_def
      sampleLimits_def sampleDefaults_def default_constants MaxFileSize_value)

theorem validOptions_bounds_witness:
  "validOptions sampleLimits (Some (DefaultOptions sampleLimits sampleDefaults))
   \<and> MaxConcurrency (DefaultOptions sampleLimits sampleDefaults) = 30
   \<and> MaxIOConcurrency (DefaultOptions sampleLimits sampleDefaults) \<le> lim_MaxParallelIO sampleLimits
   \<and> MaxKeyLen (DefaultOptions sampleLimits sampleDefaults) \<le> lim_MaxKeyLen sampleLimits
   \<and> FileSize (DefaultOptions sampleLimits sampleDefaults) = 67108864
   \<and> FileSize (DefaultOptions sampleLimits sampleDefaults) < 2 ^ 31 - 1"
proof -
  have e: "MaxConcurrency (DefaultOptions sampleLimits sampleDefaults) = 30"
    "FileSize (DefaultOptions sampleLimits sampleDefaults) = 67108864"
    by (simp_all add: DefaultOptions_def sampleDefaults_def default_constants)
  from validOptions_bounds [OF sample_default_valid] e sample_default_valid
  show ?thesis by auto
qed

lemma validIndexOptions_independent:
  "validIndexOptions
     (Some (opts\<lparr>SyncThld := a, CompactionThld := b, DelayDuringCompaction := c\<rparr>)) =
   validIndexOptions (Some opts)"
  by (simp add: validIndexOptions_def)

text \<open>
  Claim C5. The claim asks that \<^verbatim>\<open>validIndexOptions\<close> reject a sync threshold that is
  not positive and a negative compaction threshold or compaction delay. The function
  compares the neighbouring fields (\<^verbatim>\<open>FlushThld > 0\<close>, \<^verbatim>\<open>RenewSnapRootAfter >= 0\<close>) and
  never reads these three: the default index options with \<^verbatim>\<open>SyncThld = 0\<close>,
  \<^verbatim>\<open>CompactionThld = -1\<close> and \<^verbatim>\<open>DelayDuringCompaction = -1\<close> are accepted, and so are
  store options that carry them.
\<close>

theorem validIndexOptions_accepts_unchecked_thresholds:
  "validIndexOptions
     (Some (WithDelayDuringCompaction (- 1) (WithCompactionThld (- 1) (WithSyncThld 0
        (DefaultIndexOptions sampleDefaults)))))
   \<and> validOptions sampleLimits
     (Some (WithIndexOptions
        (Some (WithDelayDuringCompaction (- 1) (WithCompactionThld (- 1) (WithSyncThld 0
           (DefaultIndexOptions sampleDefaults)))))
        (DefaultOptions sampleLimits sampleDefaults)))"
  by (simp add: validOptions_def validIndexOptions_def DefaultOptions_def DefaultIndexOptions_def
      sampleLimits_def sampleDefaults_def default_constants MaxFileSize_value
      WithDelayDuringCompaction_def WithCompactionThld_def WithSyncThld_def WithIndexOptions_def)

lemmas Options_setter_defs =
  WithReadOnly_def WithSynced_def WithFileMode_def WithLog_def WithAppFactory_def
  WithCompactionDisabled_def WithMaxConcurrency_def WithMaxIOConcurrency_def
  WithMaxLinearProofLen_def WithTxLogCacheSize_def WithVLogMaxOpenedFiles_def
  WithTxLogMaxOpenedFiles_def WithCommitLogMaxOpenedFiles_def WithWriteTxHeaderVersion_def
  WithMaxWaitees_def WithTimeFunc_def WithMaxTxEntries_def WithMaxKeyLen_def
  WithMaxValueLen_def WithFileSize_def WithCompressionFormat_def WithCompresionLevel_def
  WithIndexOptions_def

lemmas IndexOptions_setter_defs =
  WithCacheSize_def WithFlushThld_def WithSyncThld_def WithFlushBufferSize_def
  WithCleanupPercentage_def WithMaxActiveSnapshots_def WithMaxNodeSize_def
  WithRenewSnapRootAfter_def WithCompactionThld_def WithDelayDuringCompaction_def
  WithNodesLogMaxOpenedFiles_def WithHistoryLogMaxOpenedFiles_def
  WithCommitLogMaxOpenedFiles'_def

lemma applySetter_named: "readField (setterField c) (applySetter c opts) = setterArg c"
  by (cases c) (simp_all add: Options_setter_defs)

lemma applySetter_frame:
  "f \<noteq> setterField c \<Longrightarrow> readField f (applySetter c opts) = readField f opts"
  by (cases c; cases f; simp add: Options_setter_defs)

lemma applySetterIdx_named: "readFieldIdx (setterFieldIdx c) (applySetterIdx c opts) = setterArgIdx c"
  by (cases c) (simp_all add: IndexOptions_setter_defs)

lemma applySetterIdx_frame:
  "f \<noteq> setterFieldIdx c \<Longrightarrow> readFieldIdx f (applySetterIdx c opts) = readFieldIdx f opts"
  by (cases c; cases f; simp add: IndexOptions_setter_defs)

lemma applyChain_frame:
  "f \<notin> setterField ` set chain \<Longrightarrow> readField f (applyChain chain opts) = readField f opts"
  unfolding applyChain_def
  by (induction chain arbitrary: opts) (auto simp: applySetter_frame)

lemma applyChainIdx_frame:
  "f \<notin> setterFieldIdx ` set chain \<Longrightarrow> readFieldIdx f (applyChainIdx chain opts) = readFieldIdx f opts"
  unfolding applyChainIdx_def
  by (induction chain arbitrary: opts) (auto simp: applySetterIdx_frame)

text \<open>
  The enumeration of fields is complete: two option values that agree on every
  enumerated field are equal.
\<close>

lemma readField_extensional:
  assumes h: "\<forall>g. readField g a = readField g b"
  shows "a = b"
proof -
  have f0: "ReadOnly a = ReadOnly b" using h [rule_format, of Opt_ReadOnly] by simp
  have f1: "Synced a = Synced b" using h [rule_format, of Opt_Synced] by simp
  have f2: "FileMode a = FileMode b" using h [rule_format, of Opt_FileMode] by simp
  have f3: "log' a = log' b" using h [rule_format, of Opt_log] by simp
  have f4: "appFactory a = appFactory b" using h [rule_format, of Opt_appFactory] by simp
  have f5: "CompactionDisabled a = CompactionDisabled b" using h [rule_format, of Opt_CompactionDisabled] by simp
  have f6: "MaxConcurrency a = MaxConcurrency b" using h [rule_format, of Opt_MaxConcurrency] by simp
  have f7: "MaxIOConcurrency a = MaxIOConcurrency b" using h [rule_format, of Opt_MaxIOConcurrency] by simp
  have f8: "MaxLinearProofLen a = MaxLinearProofLen b" using h [rule_format, of Opt_MaxLinearProofLen] by simp
  have f9: "TxLogCacheSize a = TxLogCacheSize b" using h [rule_format, of Opt_TxLogCacheSize] by simp
  have f10: "VLogMaxOpenedFiles a = VLogMaxOpenedFiles b" using h [rule_format, of Opt_VLogMaxOpenedFiles] by simp
  have f11: "TxLogMaxOpenedFiles a = TxLogMaxOpenedFiles b" using h [rule_format, of Opt_TxLogMaxOpenedFiles] by simp
  have f12: "CommitLogMaxOpenedFiles a = CommitLogMaxOpenedFiles b" using h [rule_format, of Opt_CommitLogMaxOpenedFiles] by simp
  have f13: "WriteTxHeaderVersion a = WriteTxHeaderVersion b" using h [rule_format, of Opt_WriteTxHeaderVersion] by simp
  have f14: "MaxWaitees a = MaxWaitees b" using h [rule_format, of Opt_MaxWaitees] by simp
  have f15: "TimeFunc a = TimeFunc b" using h [rule_format, of Opt_TimeFunc] by simp
  have f16: "MaxTxEntries a = MaxTxEntries b" using h [rule_format, of Opt_MaxTxEntries] by simp
  have f17: "MaxKeyLen a = MaxKeyLen b" using h [rule_format, of Opt_MaxKeyLen] by simp
  have f18: "MaxValueLen a = MaxValueLen b" using h [rule_format, of Opt_MaxValueLen] by simp
  have f19: "FileSize a = FileSize b" using h [rule_format, of Opt_FileSize] by simp
  have f20: "CompressionFormat a = CompressionFormat b" using h [rule_format, of Opt_CompressionFormat] by simp
  have f21: "CompressionLevel a = CompressionLevel b" using h [rule_format, of Opt_CompressionLevel] by simp
  have f22: "IndexOpts a = IndexOpts b" using h [rule_format, of Opt_IndexOpts] by simp
  note facts = f0 f1 f2 f3 f4 f5 f6 f7 f8 f9 f10 f11 f12 f13 f14 f15 f16 f17 f18 f19 f20 f21 f22
  show ?thesis by (rule Options.equality) (simp_all add: facts)
qed

lemma readFieldIdx_extensional:
  assumes h: "\<forall>g. readFieldIdx g a = readFieldIdx g b"
  shows "a = b"
proof -
  have f0: "CacheSize a = CacheSize b" using h [rule_format, of Idx_CacheSize] by simp
  have f1: "FlushThld a = FlushThld b" using h [rule_format, of Idx_FlushThld] by simp
  have f2: "SyncThld a = SyncThld b" using h [rule_format, of Idx_SyncThld] by simp
  have f3: "FlushBufferSize a = FlushBufferSize b" using h [rule_format, of Idx_FlushBufferSize] by simp
  have f4: "CleanupPercentage a = CleanupPercentage b" using h [rule_format, of Idx_CleanupPercentage] by simp
  have f5: "MaxActiveSnapshots a = MaxActiveSnapshots b" using h [rule_format, of Idx_MaxActiveSnapshots] by simp
  have f6: "MaxNodeSize a = MaxNodeSize b" using h [rule_format, of Idx_MaxNodeSize] by simp
  have f7: "RenewSnapRootAfter a = RenewSnapRootAfter b" using h [rule_format, of Idx_RenewSnapRootAfter] by simp
  have f8: "CompactionThld a = CompactionThld b" using h [rule_format, of Idx_CompactionThld] by simp
  have f9: "DelayDuringCompaction a = DelayDuringCompaction b" using h [rule_format, of Idx_DelayDuringCompaction] by simp
  have f10: "NodesLogMaxOpenedFiles a = NodesLogMaxOpenedFiles b" using h [rule_format, of Idx_NodesLogMaxOpenedFiles] by simp
  have f11: "HistoryLogMaxOpenedFiles a = HistoryLogMaxOpenedFiles b" using h [rule_format, of Idx_HistoryLogMaxOpenedFiles] by simp
  have f12: "CommitLogMaxOpenedFiles' a = CommitLogMaxOpenedFiles' b" using h [rule_format, of Idx_CommitLogMaxOpenedFiles] by simp
  note facts = f0 f1 f2 f3 f4 f5 f6 f7 f8 f9 f10 f11 f12
  show ?thesis by (rule IndexOptions.equality) (simp_all add: facts)
qed

text \<open>
  Claim C7. A setter of \<^verbatim>\<open>Options\<close> or of \<^verbatim>\<open>IndexOptions\<close> returns the receiver with
  the field it names holding the argument and every other field as before; after any
  chain of setters, a field that no setter of the chain names still has the value it had
  before the chain, in particular its default.
\<close>

theorem setters_set_one_field:
  "readField (setterField c) (applySetter c opts) = setterArg c
   \<and> (\<forall>f. f \<noteq> setterField c \<longrightarrow> readField f (applySetter c opts) = readField f opts)
   \<and> (\<forall>f. f \<notin> setterField ` set chain \<longrightarrow>
          readField f (applyChain chain opts) = readField f opts)
   \<and> readFieldIdx (setterFieldIdx ci) (applySetterIdx ci iopts) = setterArgIdx ci
   \<and> (\<forall>f. f \<noteq> setterFieldIdx ci \<longrightarrow>
          readFieldIdx f (applySetterIdx ci iopts) = readFieldIdx f iopts)
   \<and> (\<forall>f. f \<notin> setterFieldIdx ` set ichain \<longrightarrow>
          readFieldIdx f (applyChainIdx ichain iopts) = readFieldIdx f iopts)"
  by (intro conjI allI impI applySetter_named applySetter_frame applyChain_frame
      applySetterIdx_named applySetterIdx_frame applyChainIdx_frame)

theorem setters_set_one_field_witness:
  "Opt_MaxValueLen \<noteq> setterField (Set_MaxKeyLen 32)
   \<and> readField Opt_MaxKeyLen (applySetter (Set_MaxKeyLen 32) (DefaultOptions sampleLimits sampleDefaults)) = VInt 32
   \<and> readField Opt_MaxValueLen (applySetter (Set_MaxKeyLen 32) (DefaultOptions sampleLimits sampleDefaults)) = VInt 4096
   \<and> Opt_MaxValueLen \<notin> setterField ` set sampleChain
   \<and> readField Opt_MaxValueLen (applyChain sampleChain (DefaultOptions sampleLimits sampleDefaults)) = VInt 4096
   \<and> Idx_FlushThld \<noteq> setterFieldIdx (SetIdx_SyncThld 512)
   \<and> readFieldIdx Idx_FlushThld (applySetterIdx (SetIdx_SyncThld 512) (DefaultIndexOptions sampleDefaults)) = VInt 100000
   \<and> Idx_FlushThld \<notin> setterFieldIdx ` set sampleChainIdx
   \<and> readFieldIdx Idx_FlushThld (applyChainIdx sampleChainIdx (DefaultIndexOptions sampleDefaults)) = VInt 100000"
proof -
  let ?d = "DefaultOptions sampleLimits sampleDefaults"
  let ?i = "DefaultIndexOptions sampleDefaults"
  note t = setters_set_one_field [of "Set_MaxKeyLen 32" ?d sampleChain "SetIdx_SyncThld 512" ?i sampleChainIdx]
  have n1: "Opt_MaxValueLen \<noteq> setterField (Set_MaxKeyLen 32)" by simp
  have n2: "Opt_MaxValueLen \<notin> setterField ` set sampleChain" by (simp add: sampleChain_def)
  have n3: "Idx_FlushThld \<noteq> setterFieldIdx (SetIdx_SyncThld 512)" by simp
  have n4: "Idx_FlushThld \<notin> setterFieldIdx ` set sampleChainIdx" by (simp add: sampleChainIdx_def)
  have d1: "readField Opt_MaxValueLen ?d = VInt 4096"
    by (simp add: DefaultOptions_def default_constants)
  have d2: "readFieldIdx Idx_FlushThld ?i = VInt 100000"
    by (simp add: DefaultIndexOptions_def sampleDefaults_def)
  from t have a: "readField Opt_MaxKeyLen (applySetter (Set_MaxKeyLen 32) ?d) = VInt 32" by simp
  from t n1 d1 have b: "readField Opt_MaxValueLen (applySetter (Set_MaxKeyLen 32) ?d) = VInt 4096"
    by metis
  from t n2 d1 have c: "readField Opt_MaxValueLen (applyChain sampleChain ?d) = VInt 4096"
    by metis
  from t n3 d2 have d: "readFieldIdx Idx_FlushThld (applySetterIdx (SetIdx_SyncThld 512) ?i) = VInt 100000"
    by metis
  from t n4 d2 have e: "readFieldIdx Idx_FlushThld (applyChainIdx sampleChainIdx ?i) = VInt 100000"
    by metis
  show ?thesis by (intro conjI n1 a b n2 c n3 d n4 e)
qed

section \<open>Properties of the command line settings\<close>

lemma GetBool_other_flag:
  "name \<noteq> other \<Longrightarrow> GetBool (flags(other := v)) name = GetBool flags name"
  by (simp add: GetBool_def)

lemma GetString_other_flag:
  "name \<noteq> other \<Longrightarrow> GetString (flags(other := v)) name = GetString flags name"
  by (simp add: GetString_def)

lemma GetUint32_other_flag:
  "name \<noteq> other \<Longrightarrow> GetUint32 (flags(other := v)) name = GetUint32 flags name"
  by (simp add: GetUint32_def)

lemma prepareDatabaseSettings_ignores_password_flag:
  "prepareDatabaseSettings db (flags(''replica-password'' := v)) = prepareDatabaseSettings db flags"
  by (simp add: prepareDatabaseSettings_def GetBool_other_flag GetString_other_flag
      GetUint32_other_flag cong: sum.case_cong if_cong)

text \<open>
  Claim C8. When the \<^verbatim>\<open>replica\<close> flag reads as true and \<^verbatim>\<open>prepareDatabaseSettings\<close>
  returns settings (every flag read succeeded), the \<^verbatim>\<open>ReplicaPassword\<close> of the result is the
  value of the \<^verbatim>\<open>replica-username\<close> flag, so it equals the returned \<^verbatim>\<open>ReplicaUsername\<close>;
  and the \<^verbatim>\<open>replica-password\<close> flag has no influence: redefining or removing it leaves the
  result unchanged.
\<close>

theorem prepareDatabaseSettings_password_is_username:
  assumes "GetBool flags ''replica'' = Inr True"
    and "prepareDatabaseSettings db flags = Inr s"
  shows "GetString flags ''replica-username'' = Inr (ReplicaPassword s)
       \<and> ReplicaPassword s = ReplicaUsername s
       \<and> (\<forall>v. prepareDatabaseSettings db (flags(''replica-password'' := v)) = Inr s)"
proof -
  from assms obtain u where u: "GetString flags ''replica-username'' = Inr u"
    and s: "ReplicaPassword s = u" "ReplicaUsername s = u"
    by (auto simp: prepareDatabaseSettings_def split: sum.splits)
  from assms(2) have "\<forall>v. prepareDatabaseSettings db (flags(''replica-password'' := v)) = Inr s"
    by (simp add: prepareDatabaseSettings_ignores_password_flag)
  with u s show ?thesis by simp
qed

theorem prepareDatabaseSettings_password_is_username_witness:
  "GetBool replicaFlags ''replica'' = Inr True
   \<and> prepareDatabaseSettings ''db1'' replicaFlags = Inr replicaSettings
   \<and> GetString replicaFlags ''replica-username'' = Inr (ReplicaPassword replicaSettings)
   \<and> ReplicaPassword replicaSettings = ReplicaUsername replicaSettings
   \<and> ReplicaPassword replicaSettings = ''follower''
   \<and> prepareDatabaseSettings ''db1'' (replicaFlags(''replica-password'' := None)) = Inr replicaSettings"
proof -
  have a: "GetBool replicaFlags ''replica'' = Inr True"
    by (simp add: GetBool_def replicaFlags_def)
  have b: "prepareDatabaseSettings ''db1'' replicaFlags = Inr replicaSettings"
    by (simp add: prepareDatabaseSettings_def GetBool_def GetString_def GetUint32_def
        replicaFlags_def replicaSettings_def zeroDatabaseSettings_def)
  have c: "ReplicaPassword replicaSettings = ''follower''"
    by (simp add: replicaSettings_def)
  from prepareDatabaseSettings_password_is_username [OF a b] a b c show ?thesis by simp
qed

section \<open>Properties of the hash chain\<close>

lemma commitAll_snoc:
  "commitAll H digest h0 lg (reqs @ [r]) =
     (case commitAll H digest h0 lg reqs of
        (lg', rs) \<Rightarrow>
          (case commit H digest h0 lg' r of (lg'', x) \<Rightarrow> (lg'', rs @ [x])))"
  by (induction reqs arbitrary: lg) (auto split: prod.splits)

lemma rechain_snoc:
  "rechain H digest h (ess @ [es]) = H (rechain H digest h ess) (digest es)"
  by (induction ess arbitrary: h) auto

lemma headHash_nth:
  "headHash h0 lg = (if length lg = 0 then h0 else chainedHash (lg ! (length lg - 1)))"
  by (simp add: headHash_def last_conv_nth)

text \<open>
  Claim C1. After any sequence of commits starting from the empty log, transaction
  \<open>n\<close> has id \<open>n\<close>, its prior chained hash is the chained hash of transaction
  \<open>n - 1\<close> (\<open>h0\<close> for the first), its chained hash is \<open>H\<close> of that prior hash and
  the digest of its entries, and recomputing the chained hash of transaction \<open>n\<close> from
  the entries of the full log gives the value the commit returned for it.
\<close>

theorem chained_hash_reproducible:
  assumes "commitAll H digest h0 [] reqs = (txlog, rs)"
  shows "length txlog = length reqs \<and> length rs = length reqs
       \<and> (\<forall>k<length reqs.
             tx_id (txlog ! k) = k + 1
           \<and> entries (txlog ! k) = snd (reqs ! k)
           \<and> priorChainedHash (txlog ! k) = (if k = 0 then h0 else chainedHash (txlog ! (k - 1)))
           \<and> chainedHash (txlog ! k) =
               H (priorChainedHash (txlog ! k)) (digest (entries (txlog ! k)))
           \<and> rs ! k = (k + 1, chainedHash (txlog ! k))
           \<and> recomputeChainedHash H digest h0 txlog (k + 1) = snd (rs ! k))"
  using assms
proof (induction reqs arbitrary: txlog rs rule: rev_induct)
  case Nil
  then show ?case by simp
next
  case (snoc r reqs)
  obtain lg rs0 where c0: "commitAll H digest h0 [] reqs = (lg, rs0)"
    by (cases "commitAll H digest h0 [] reqs") auto
  define n where "n = length reqs"
  define tx where "tx = \<lparr> tx_id = length lg + 1, timestamp = fst r, entries = snd r,
      priorChainedHash = headHash h0 lg, chainedHash = H (headHash h0 lg) (digest (snd r)) \<rparr>"
  from snoc.prems c0 have txlog: "txlog = lg @ [tx]"
    and rs: "rs = rs0 @ [(tx_id tx, chainedHash tx)]"
    by (simp_all add: commitAll_snoc commit_def Let_def tx_def)
  from snoc.IH [OF c0] have len: "length lg = n" "length rs0 = n"
    and old: "\<And>k. k < n \<Longrightarrow>
             tx_id (lg ! k) = k + 1
           \<and> entries (lg ! k) = snd (reqs ! k)
           \<and> priorChainedHash (lg ! k) = (if k = 0 then h0 else chainedHash (lg ! (k - 1)))
           \<and> chainedHash (lg ! k) = H (priorChainedHash (lg ! k)) (digest (entries (lg ! k)))
           \<and> rs0 ! k = (k + 1, chainedHash (lg ! k))
           \<and> recomputeChainedHash H digest h0 lg (k + 1) = snd (rs0 ! k)"
    by (simp_all add: n_def)
  have head: "rechain H digest h0 (map entries lg) = headHash h0 lg"
  proof (cases "n = 0")
    case True
    with len show ?thesis by (simp add: headHash_def)
  next
    case False
    then have "n - 1 < n" by simp
    from old [OF this] False
    have "recomputeChainedHash H digest h0 lg n = chainedHash (lg ! (n - 1))" by simp
    with len False show ?thesis
      by (simp add: recomputeChainedHash_def headHash_nth)
  qed
  have new: "tx_id tx = n + 1" "entries tx = snd r"
    "priorChainedHash tx = (if n = 0 then h0 else chainedHash (lg ! (n - 1)))"
    "chainedHash tx = H (priorChainedHash tx) (digest (entries tx))"
    using len by (simp_all add: tx_def headHash_nth)
  have rec_new: "recomputeChainedHash H digest h0 txlog (n + 1) = chainedHash tx"
    using len head by (simp add: recomputeChainedHash_def txlog rechain_snoc tx_def)
  have rec_old: "recomputeChainedHash H digest h0 txlog (k + 1) =
                 recomputeChainedHash H digest h0 lg (k + 1)" if "k < n" for k
    using that len by (simp add: recomputeChainedHash_def txlog)
  have step: "tx_id (txlog ! k) = k + 1
           \<and> entries (txlog ! k) = snd ((reqs @ [r]) ! k)
           \<and> priorChainedHash (txlog ! k) = (if k = 0 then h0 else chainedHash (txlog ! (k - 1)))
           \<and> chainedHash (txlog ! k) =
               H (priorChainedHash (txlog ! k)) (digest (entries (txlog ! k)))
           \<and> rs ! k = (k + 1, chainedHash (txlog ! k))
           \<and> recomputeChainedHash H digest h0 txlog (k + 1) = snd (rs ! k)"
    if "k < length (reqs @ [r])" for k
  proof (cases "k < n")
    case True
    then have "k - 1 < n" by simp
    with True len old [OF True] rec_old [OF True] show ?thesis
      by (simp add: txlog rs nth_append n_def)
  next
    case False
    with that have k: "k = n" by (simp add: n_def)
    have "n \<noteq> 0 \<Longrightarrow> n - 1 < n" by simp
    with len new rec_new show ?thesis
      by (simp add: k txlog rs nth_append n_def)
  qed
  from len step show ?case by (simp add: txlog rs n_def)
qed

theorem chained_hash_reproducible_witness:
  "commitAll sampleH sampleDigest 0 [] sampleReqs = (sampleLog, sampleReturned)
   \<and> (2::nat) < length sampleReqs
   \<and> chainedHash (sampleLog ! 2) =
       sampleH (chainedHash (sampleLog ! 1)) (sampleDigest (entries (sampleLog ! 2)))
   \<and> sampleReturned ! 2 = (3, 427)
   \<and> recomputeChainedHash sampleH sampleDigest 0 sampleLog 3 = 427"
proof -
  have a: "commitAll sampleH sampleDigest 0 [] sampleReqs = (sampleLog, sampleReturned)"
    by (simp add: sampleReqs_def sampleLog_def sampleReturned_def commit_def headHash_def Let_def
        sampleH_def sampleDigest_def)
  have b: "(2::nat) < length sampleReqs" by (simp add: sampleReqs_def)
  note t = chained_hash_reproducible [OF a, THEN conjunct2, THEN conjunct2, rule_format, OF b]
  have c: "sampleReturned ! 2 = (3, 427)" by (simp add: sampleReturned_def)
  from t have p: "priorChainedHash (sampleLog ! 2) = chainedHash (sampleLog ! 1)" by simp
  from t p have d: "chainedHash (sampleLog ! 2) =
       sampleH (chainedHash (sampleLog ! 1)) (sampleDigest (entries (sampleLog ! 2)))" by simp
  from t c have e: "recomputeChainedHash sampleH sampleDigest 0 sampleLog 3 = 427" by simp
  show ?thesis by (intro conjI a b c d e)
qed

end
